theory Spec2Isabelle
  imports Complex_Main
begin

section \<open>Values and errors\<close>

text \<open>
  The driver of \<^verbatim>\<open>vebio/OptimizationFunctions.py\<close> and the stage models of
  \<^verbatim>\<open>vebio/RunFunctions.py\<close> compute with Python floats. A finite float is modelled as a
  real number (rounding is not modelled); the one non-finite value the code tests for, NaN,
  is a constructor of its own where a value read from the parameter file can be NaN.
\<close>

datatype pyfloat = Fin real | NaN

text \<open>
  The exceptions the modelled code raises. \<open>ValueOutside a txt\<close> is the
  \<^verbatim>\<open>ValueError(f"Value {a} is outside allowed interval <txt>")\<close> of the range-checked
  setters: it carries the offending value and the interval text of the message.
\<close>

datatype error =
    ValueError string
  | ValueOutside pyfloat string
  | ZeroDivisionError
  | AttributeError string
  | KeyError string
  | TypeError
  | IndexError
  | NameError string
  | AssertionError
  | StageFailure string

section \<open>Variable binder: forward and inverse scaling\<close>

text \<open>
  \<^verbatim>\<open>normalize(value, bounds)\<close>: \<^verbatim>\<open>(value - lb)/(ub-lb)\<close>. Python's float division raises
  \<^verbatim>\<open>ZeroDivisionError\<close> when the divisor is zero.
\<close>

fun normalize_value :: "real \<Rightarrow> real \<times> real \<Rightarrow> error + real" where
  "normalize_value v (lb, ub) =
     (if ub - lb = 0 then Inl ZeroDivisionError else Inr ((v - lb) / (ub - lb)))"

text \<open>\<^verbatim>\<open>scale_back(value, bounds)\<close>: \<^verbatim>\<open>value*(ub-lb) + lb\<close>.\<close>

fun scale_back :: "real \<Rightarrow> real \<times> real \<Rightarrow> real" where
  "scale_back v (lb, ub) = v * (ub - lb) + lb"

section \<open>Pipeline controller: number of active stages\<close>

definition output_names :: "string list" where
  "output_names = [''pretreatment_output'', ''enzymatic_output'', ''bioreactor_output'']"

text \<open>\<^verbatim>\<open>list.index\<close>: position of the first occurrence, \<open>None\<close> where Python raises.\<close>

fun list_index :: "'a list \<Rightarrow> 'a \<Rightarrow> nat option" where
  "list_index [] y = None"
| "list_index (x # xs) y =
     (if x = y then Some 0 else map_option Suc (list_index xs y))"

definition unknown_output_message :: "string \<Rightarrow> string" where
  "unknown_output_message name =
     ''Error: Output dictionary '' @ [CHR 0x27] @ name @ [CHR 0x27] @
     '' doesn'' @ [CHR 0x27] @ ''t exist. Check the widget definition''"

definition define_n_models :: "string \<Rightarrow> error + nat" where
  "define_n_models output_name =
     (if \<not> (output_name \<in> set output_names)
      then Inl (ValueError (unknown_output_message output_name))
      else (case list_index output_names output_name of
              None \<Rightarrow> Inl (ValueError [])
            | Some i \<Rightarrow> Inr (i + 1)))"

section \<open>Values read from the shared parameter file\<close>

text \<open>
  The stages communicate through a YAML document with one section per stage.
  \<^verbatim>\<open>yaml_to_dict\<close> (module \<^verbatim>\<open>vebio.Utilities\<close>, outside the modelled sources) returns it
  as a dictionary of dictionaries; the entries are numbers or strings.
\<close>

datatype yaml_value = YNum pyfloat | YStr string

type_synonym yaml_section = "string \<Rightarrow> yaml_value option"
type_synonym yaml_doc = "string \<Rightarrow> yaml_section option"

text \<open>Float arithmetic used on the objective: unary minus, \<^verbatim>\<open>-1.0/obj\<close>, product.\<close>

fun fneg :: "pyfloat \<Rightarrow> pyfloat" where
  "fneg (Fin r) = Fin (- r)"
| "fneg NaN = NaN"

fun minus_one_over :: "pyfloat \<Rightarrow> error + pyfloat" where
  "minus_one_over (Fin r) = (if r = 0 then Inl ZeroDivisionError else Inr (Fin (- 1 / r)))"
| "minus_one_over NaN = Inr NaN"

fun fmul :: "pyfloat \<Rightarrow> pyfloat \<Rightarrow> pyfloat" where
  "fmul (Fin a) (Fin b) = Fin (a * b)"
| "fmul _ _ = NaN"

section \<open>The optimization driver\<close>

text \<open>
  A stage model as the driver sees it: \<^verbatim>\<open>hasattr\<close>, \<^verbatim>\<open>setattr\<close> and \<^verbatim>\<open>run\<close>, acting on
  the world \<open>'w\<close> (the stage objects' attributes and the files they share). A raised
  exception is \<open>Some e\<close>; the flag \<^verbatim>\<open>run\<close> returns is discarded by the driver and is not
  part of this interface.
\<close>

record 'w stage =
  has_attr :: "string \<Rightarrow> 'w \<Rightarrow> bool"
  set_attr :: "string \<Rightarrow> real \<Rightarrow> 'w \<Rightarrow> error option \<times> 'w"
  run :: "bool \<Rightarrow> 'w \<Rightarrow> error option \<times> 'w"

text \<open>
  Lines of a results file: the header with its column names, and one data row
  (iteration, dimensional values, objective).
\<close>

datatype log_line = Header "string list" | Row nat "real list" pyfloat

text \<open>
  The attributes of an \<^verbatim>\<open>Optimization\<close> object. \<open>opt_results_file\<close> is \<open>None\<close> until
  \<^verbatim>\<open>scipy_minimize\<close> sets the attribute, and then holds the lines of that file.
  \<open>world\<close> is the state outside the object that the stage models read and write.
\<close>

record 'w optimization =
  output_name :: string
  objective_name :: string
  n_models :: nat
  models_list :: "'w stage list"
  fn_evals :: nat
  objective_scaling :: pyfloat
  x_0 :: "real list"
  var_names :: "string list"
  nice_var_names :: "string list"
  var_bounds :: "(real \<times> real) list"
  var_real_bounds :: "(real \<times> real) list"
  opt_results_file :: "log_line list option"
  world :: 'w

text \<open>
  An entry of a widget collection's \<^verbatim>\<open>__dict__\<close>: an \<^verbatim>\<open>OptimizationWidget\<close> with its
  \<^verbatim>\<open>is_control\<close> flag and the slider's \<^verbatim>\<open>min\<close>, \<^verbatim>\<open>max\<close>, \<^verbatim>\<open>value\<close> and
  \<^verbatim>\<open>description\<close>, or any other widget.
\<close>

datatype widget =
    OptimizationWidget bool real real real string
  | OtherWidget

type_synonym widget_collection = "(string \<times> widget) list"

text \<open>
  The arguments of the constructor. The four stage constructors are outside the driver:
  each either raises or returns the stage object and the changed world.
  \<open>obj_widjet_value\<close> is the pair (output category, objective name) of the objective
  widget.
\<close>

record 'w init_args =
  fs_options :: widget_collection
  pt_options :: widget_collection
  eh_options :: widget_collection
  eh_options_model_type :: string
  br_options_model_type :: string
  obj_widjet_value :: "string \<times> string"
  Feedstock_new :: "'w \<Rightarrow> error + 'w stage \<times> 'w"
  Pretreatment_new :: "'w \<Rightarrow> error + 'w stage \<times> 'w"
  EnzymaticHydrolysis_new :: "'w \<Rightarrow> error + 'w stage \<times> 'w"
  Bioreactor_new :: "'w \<Rightarrow> error + 'w stage \<times> 'w"

text \<open>
  First half of \<^verbatim>\<open>__init__\<close>: the stage count, the stage objects (with the two
  assertions on the model type), the counters and the empty variable lists.
\<close>

definition init_models :: "'w init_args \<Rightarrow> 'w \<Rightarrow> error + 'w optimization" where
  "init_models args w =
     (case define_n_models (fst (obj_widjet_value args)) of
        Inl e \<Rightarrow> Inl e
      | Inr n \<Rightarrow>
     (case Feedstock_new args w of
        Inl e \<Rightarrow> Inl e
      | Inr (fs, w1) \<Rightarrow>
     (case Pretreatment_new args w1 of
        Inl e \<Rightarrow> Inl e
      | Inr (pt, w2) \<Rightarrow>
     (case (if n > 1
            then (if eh_options_model_type args \<noteq> ''CFD Surrogate'' then Inl AssertionError
                  else (case EnzymaticHydrolysis_new args w2 of
                          Inl e \<Rightarrow> Inl e
                        | Inr (eh, w3) \<Rightarrow> Inr ([fs, pt, eh], w3)))
            else Inr ([fs, pt], w2)) of
        Inl e \<Rightarrow> Inl e
      | Inr (ms, w3) \<Rightarrow>
     (case (if n > 2
            then (if br_options_model_type args \<noteq> ''CFD Surrogate'' then Inl AssertionError
                  else (case Bioreactor_new args w3 of
                          Inl e \<Rightarrow> Inl e
                        | Inr (br, w4) \<Rightarrow> Inr (ms @ [br], w4)))
            else Inr (ms, w3)) of
        Inl e \<Rightarrow> Inl e
      | Inr (ms', w4) \<Rightarrow>
          Inr \<lparr> output_name = fst (obj_widjet_value args),
                objective_name = snd (obj_widjet_value args),
                n_models = n,
                models_list = ms',
                fn_evals = 0,
                objective_scaling = Fin 1,
                x_0 = [],
                var_names = [],
                nice_var_names = [],
                var_bounds = [],
                var_real_bounds = [],
                opt_results_file = None,
                world = w4 \<rparr>)))))"

text \<open>
  The inner loop over one widget collection: every \<^verbatim>\<open>OptimizationWidget\<close> whose
  \<^verbatim>\<open>is_control\<close> is set is normalised and appended to the five lists.
\<close>

fun collect_controls :: "widget_collection \<Rightarrow> 'w optimization \<Rightarrow> error + 'w optimization" where
  "collect_controls [] self = Inr self"
| "collect_controls ((widget_name, OtherWidget) # rest) self = collect_controls rest self"
| "collect_controls ((widget_name, OptimizationWidget is_control wmin wmax wvalue description) # rest) self =
     (if is_control
      then (case normalize_value wvalue (wmin, wmax) of
              Inl e \<Rightarrow> Inl e
            | Inr scaled_value \<Rightarrow>
                collect_controls rest
                  (self\<lparr> x_0 := x_0 self @ [scaled_value],
                         var_names := var_names self @ [widget_name],
                         nice_var_names := nice_var_names self @ [description],
                         var_real_bounds := var_real_bounds self @ [(wmin, wmax)],
                         var_bounds := var_bounds self @ [(0, 1)] \<rparr>))
      else collect_controls rest self)"

text \<open>The outer loop \<^verbatim>\<open>for wc in [fs_options, pt_options, eh_options]\<close>.\<close>

fun collect_all :: "widget_collection list \<Rightarrow> 'w optimization \<Rightarrow> error + 'w optimization" where
  "collect_all [] self = Inr self"
| "collect_all (wc # wcs) self =
     (case collect_controls wc self of
        Inl e \<Rightarrow> Inl e
      | Inr self' \<Rightarrow> collect_all wcs self')"

definition no_controls_message :: string where
  "no_controls_message = ''No controls have been specified, retry with >= 1 control variables.''"

definition Optimization_init :: "'w init_args \<Rightarrow> 'w \<Rightarrow> error + 'w optimization" where
  "Optimization_init args w =
     (case init_models args w of
        Inl e \<Rightarrow> Inl e
      | Inr self \<Rightarrow>
     (case collect_all [fs_options args, pt_options args, eh_options args] self of
        Inl e \<Rightarrow> Inl e
      | Inr self' \<Rightarrow>
          if length (x_0 self') = 0 then Inl (ValueError no_controls_message)
          else Inr self'))"

text \<open>The controls the constructor selects, in encounter order.\<close>

fun is_selected :: "string \<times> widget \<Rightarrow> bool" where
  "is_selected (widget_name, OptimizationWidget is_control wmin wmax wvalue description) = is_control"
| "is_selected (widget_name, OtherWidget) = False"

definition selected_controls :: "'w init_args \<Rightarrow> (string \<times> widget) list" where
  "selected_controls args =
     filter is_selected (fs_options args @ pt_options args @ eh_options args)"

text \<open>
  \<^verbatim>\<open>scipy_minimize\<close> up to the call of the minimizer: the results file is (re)created
  with its header row.
\<close>

definition write_header :: "'w optimization \<Rightarrow> 'w optimization" where
  "write_header self =
     self\<lparr> opt_results_file := Some [Header (nice_var_names self @ [''Objective''])] \<rparr>"

subsection \<open>Running the pipeline\<close>

text \<open>
  \<^verbatim>\<open>for model in self.models_list: if hasattr(model, var_name): setattr(...)\<close>: every
  stage that has the attribute is updated; an exception of a setter ends the run.
\<close>

fun set_on_models :: "'w stage list \<Rightarrow> string \<Rightarrow> real \<Rightarrow> 'w \<Rightarrow> error option \<times> 'w" where
  "set_on_models [] var_name v w = (None, w)"
| "set_on_models (model # ms) var_name v w =
     (if has_attr model var_name w
      then (case set_attr model var_name v w of
              (Some e, w') \<Rightarrow> (Some e, w')
            | (None, w') \<Rightarrow> set_on_models ms var_name v w')
      else set_on_models ms var_name v w)"

fun update_models :: "'w stage list \<Rightarrow> (string \<times> real) list \<Rightarrow> 'w \<Rightarrow> error option \<times> 'w" where
  "update_models ms [] w = (None, w)"
| "update_models ms ((var_name, v) # rest) w =
     (case set_on_models ms var_name v w of
        (Some e, w') \<Rightarrow> (Some e, w')
      | (None, w') \<Rightarrow> update_models ms rest w')"

fun run_stages :: "'w stage list \<Rightarrow> bool \<Rightarrow> 'w \<Rightarrow> error option \<times> 'w" where
  "run_stages [] verbose w = (None, w)"
| "run_stages (model # ms) verbose w =
     (case run model verbose w of
        (Some e, w') \<Rightarrow> (Some e, w')
      | (None, w') \<Rightarrow> run_stages ms verbose w')"

text \<open>
  \<^verbatim>\<open>output_dict[self.output_name][self.objective_name]\<close>, a \<^verbatim>\<open>KeyError\<close> for a missing
  key.
\<close>

definition read_objective :: "yaml_doc \<Rightarrow> string \<Rightarrow> string \<Rightarrow> error + yaml_value" where
  "read_objective output_dict oname objname =
     (case output_dict oname of
        None \<Rightarrow> Inl (KeyError oname)
      | Some sec \<Rightarrow>
          (case sec objname of
             None \<Rightarrow> Inl (KeyError objname)
           | Some v \<Rightarrow> Inr v))"

text \<open>
  \<^verbatim>\<open>run_models_with_new_values\<close>. \<open>yaml_to_dict\<close> reads the parameter file of the world
  (the function of \<^verbatim>\<open>vebio.Utilities\<close>, a parameter here). All stages but the first are
  run.
\<close>

definition run_models_with_new_values ::
  "('w \<Rightarrow> error + yaml_doc) \<Rightarrow> 'w optimization \<Rightarrow> real list \<Rightarrow> bool \<Rightarrow> (error + yaml_value) \<times> 'w" where
  "run_models_with_new_values yaml_to_dict self dimensional_values verbose =
     (case update_models (models_list self) (zip (var_names self) dimensional_values) (world self) of
        (Some e, w1) \<Rightarrow> (Inl e, w1)
      | (None, w1) \<Rightarrow>
     (case run_stages (tl (models_list self)) verbose w1 of
        (Some e, w2) \<Rightarrow> (Inl e, w2)
      | (None, w2) \<Rightarrow>
     (case yaml_to_dict w2 of
        Inl e \<Rightarrow> (Inl e, w2)
      | Inr output_dict \<Rightarrow>
          (read_objective output_dict (output_name self) (objective_name self), w2))))"

subsection \<open>The objective evaluator\<close>

text \<open>
  \<^verbatim>\<open>objective_function\<close>. The order of the source is kept: the pipeline runs, the result
  is negated (a \<^verbatim>\<open>TypeError\<close> for a string), the scaling is set on the first
  evaluation (a \<^verbatim>\<open>ZeroDivisionError\<close> for a zero objective), the counter is
  incremented, the row is appended (an \<^verbatim>\<open>AttributeError\<close> when no results file has
  been set), the values are printed with their names (\<^verbatim>\<open>self.var_names[k]\<close>, an
  \<^verbatim>\<open>IndexError\<close> when there are fewer names than values), and the scaled objective is
  returned.
\<close>

definition to_dimensional :: "'w optimization \<Rightarrow> real list \<Rightarrow> real list" where
  "to_dimensional self free_variables =
     map (\<lambda>(v, bounds). scale_back v bounds) (zip free_variables (var_real_bounds self))"

definition objective_function ::
  "('w \<Rightarrow> error + yaml_doc) \<Rightarrow> real list \<Rightarrow> 'w optimization \<Rightarrow> (error + pyfloat) \<times> 'w optimization" where
  "objective_function yaml_to_dict free_variables self =
     (let dimensional_values = to_dimensional self free_variables;
          v_flag = (fn_evals self = 0)
      in case run_models_with_new_values yaml_to_dict self dimensional_values v_flag of
           (Inl e, w) \<Rightarrow> (Inl e, self\<lparr>world := w\<rparr>)
         | (Inr (YStr s), w) \<Rightarrow> (Inl TypeError, self\<lparr>world := w\<rparr>)
         | (Inr (YNum r), w) \<Rightarrow>
             (let obj = fneg r;
                  self1 = self\<lparr>world := w\<rparr>
              in case (if fn_evals self1 = 0
                       then map_sum id (\<lambda>sc. self1\<lparr>objective_scaling := sc\<rparr>) (minus_one_over obj)
                       else Inr self1) of
                   Inl e \<Rightarrow> (Inl e, self1)
                 | Inr self2 \<Rightarrow>
                     (let self3 = self2\<lparr>fn_evals := fn_evals self2 + 1\<rparr>
                      in case opt_results_file self3 of
                           None \<Rightarrow> (Inl (AttributeError ''opt_results_file''), self3)
                         | Some file_lines \<Rightarrow>
                             (let self4 = self3\<lparr>opt_results_file :=
                                    Some (file_lines @ [Row (fn_evals self3) dimensional_values obj])\<rparr>
                              in if length (var_names self4) < length dimensional_values
                                 then (Inl IndexError, self4)
                                 else (Inr (fmul obj (objective_scaling self4)), self4)))))"



subsection \<open>The grid sweep\<close>

text \<open>
  \<^verbatim>\<open>np.linspace(start, stop, num)\<close> with the default \<^verbatim>\<open>endpoint=True\<close>: no point for
  \<open>num = 0\<close>, the start alone for \<open>num = 1\<close>, and otherwise \<open>num\<close> points with step
  \<open>(stop - start)/(num - 1)\<close>, the last of them set to \<open>stop\<close>.
\<close>

definition linspace :: "real \<Rightarrow> real \<Rightarrow> nat \<Rightarrow> real list" where
  "linspace start stop num =
     (if num = 0 then []
      else if num = 1 then [start]
      else map (\<lambda>i. start + real i * ((stop - start) / real (num - 1))) [0..<num - 1] @ [stop])"

text \<open>
  Row \<open>k\<close> of \<^verbatim>\<open>grid_ravel.T\<close>. \<^verbatim>\<open>np.meshgrid(*grid_x, indexing='ij')[i]\<close> holds
  \<open>grid_x[i][j\<^sub>i]\<close> at the index \<open>(j\<^sub>0, \<dots>, j\<^bsub>d-1\<^esub>)\<close>, and \<^verbatim>\<open>ravel()\<close> lists the indices
  in C order, the last one fastest: position \<open>k\<close> has \<open>j\<^sub>i = (k div nn^(d-1-i)) mod nn\<close>.
\<close>

definition grid_point :: "real list list \<Rightarrow> nat \<Rightarrow> nat \<Rightarrow> nat \<Rightarrow> real list" where
  "grid_point grid_x nn dimension k =
     map (\<lambda>i. (grid_x ! i) ! ((k div nn ^ (dimension - 1 - i)) mod nn)) [0..<dimension]"

text \<open>
  The parameter grid: \<open>grid_x\<close>, the mesh and the array \<^verbatim>\<open>grid_ravel\<close> of shape
  \<open>(dimension, nn ** dimension)\<close>, returned as the list of the rows of its transpose.
  \<open>dimension\<close> is \<^verbatim>\<open>len(self.var_names)\<close>; the constructor keeps it equal to the number
  of bounds. Where they differ numpy raises: an \<^verbatim>\<open>IndexError\<close> for a mesh that is
  missing, a \<^verbatim>\<open>ValueError\<close> for a mesh whose size does not fit the row.
\<close>

definition make_grid :: "(real \<times> real) list \<Rightarrow> nat \<Rightarrow> nat \<Rightarrow> error + real list list" where
  "make_grid bounds dimension nn =
     (let grid_x = map (\<lambda>bound. linspace (fst bound) (snd bound) nn) bounds
      in if length bounds < dimension
         then (if 1 \<le> length bounds \<and> 2 \<le> nn
               then Inl (ValueError ''could not broadcast input array'')
               else Inl IndexError)
         else if dimension < length bounds \<and> 1 \<le> dimension \<and> 2 \<le> nn
         then Inl (ValueError ''could not broadcast input array'')
         else Inr (map (grid_point grid_x nn dimension) [0..<nn ^ dimension]))"

text \<open>
  The loop \<^verbatim>\<open>for i, dimensional_values in enumerate(grid_ravel.T)\<close>: the pipeline is called
  directly and the row \<open>i + 1\<close> is appended to the sweep's file. Formatting a string with
  \<^verbatim>\<open>.9e\<close> is a \<^verbatim>\<open>ValueError\<close>. The file written so far is returned also when an
  exception ends the sweep.
\<close>

fun sweep_rows ::
  "('w \<Rightarrow> error + yaml_doc) \<Rightarrow> (nat \<times> real list) list \<Rightarrow> 'w optimization \<Rightarrow> log_line list
     \<Rightarrow> error option \<times> log_line list \<times> 'w optimization" where
  "sweep_rows yaml_to_dict [] self file_lines = (None, file_lines, self)"
| "sweep_rows yaml_to_dict ((i, dimensional_values) # rest) self file_lines =
     (case run_models_with_new_values yaml_to_dict self dimensional_values False of
        (Inl e, w) \<Rightarrow> (Some e, file_lines, self\<lparr>world := w\<rparr>)
      | (Inr (YStr s), w) \<Rightarrow>
          (Some (ValueError ''Unknown format code''), file_lines, self\<lparr>world := w\<rparr>)
      | (Inr (YNum obj), w) \<Rightarrow>
          sweep_rows yaml_to_dict rest (self\<lparr>world := w\<rparr>)
            (file_lines @ [Row (i + 1) dimensional_values obj]))"

definition parameter_grid_sweep ::
  "('w \<Rightarrow> error + yaml_doc) \<Rightarrow> nat \<Rightarrow> 'w optimization
     \<Rightarrow> error option \<times> log_line list \<times> 'w optimization" where
  "parameter_grid_sweep yaml_to_dict nn self =
     (let file_lines = [Header (nice_var_names self @ [objective_name self])]
      in case make_grid (var_real_bounds self) (length (var_names self)) nn of
           Inl e \<Rightarrow> (Some e, file_lines, self)
         | Inr rows \<Rightarrow> sweep_rows yaml_to_dict (enumerate 0 rows) self file_lines)"

subsection \<open>A small concrete pipeline\<close>

text \<open>
  A pipeline on which the driver can be evaluated: the world is a pair of numbers, the
  only stage has the attributes \<open>a\<close> and \<open>b\<close> (stored into the pair) and does nothing
  when run, and the parameter file reports four times \<open>a\<close> as the objective \<open>obj\<close> of
  \<open>pretreatment_output\<close>.
\<close>

definition pair_stage :: "(real \<times> real) stage" where
  "pair_stage =
     \<lparr> has_attr = (\<lambda>name w. name = ''a'' \<or> name = ''b''),
       set_attr = (\<lambda>name v w. (None, if name = ''a'' then (v, snd w) else (fst w, v))),
       run = (\<lambda>verbose w. (None, w)) \<rparr>"

definition pair_yaml_to_dict :: "real \<times> real \<Rightarrow> error + yaml_doc" where
  "pair_yaml_to_dict w =
     Inr (\<lambda>sec. if sec = ''pretreatment_output''
                 then Some (\<lambda>key. if key = ''obj'' then Some (YNum (Fin (4 * fst w))) else None)
                 else None)"

definition pair_args ::
  "widget_collection \<Rightarrow> widget_collection \<Rightarrow> widget_collection \<Rightarrow> (real \<times> real) init_args" where
  "pair_args fs pt eh =
     \<lparr> fs_options = fs, pt_options = pt, eh_options = eh,
       eh_options_model_type = ''CFD Surrogate'', br_options_model_type = ''CFD Surrogate'',
       obj_widjet_value = (''pretreatment_output'', ''obj''),
       Feedstock_new = (\<lambda>w. Inr (pair_stage, w)),
       Pretreatment_new = (\<lambda>w. Inr (pair_stage, w)),
       EnzymaticHydrolysis_new = (\<lambda>w. Inr (pair_stage, w)),
       Bioreactor_new = (\<lambda>w. Inr (pair_stage, w)) \<rparr>"

definition pair_self :: "string list \<Rightarrow> (real \<times> real) list \<Rightarrow> (real \<times> real) optimization" where
  "pair_self names bounds =
     \<lparr> output_name = ''pretreatment_output'', objective_name = ''obj'', n_models = 1,
       models_list = [pair_stage], fn_evals = 0, objective_scaling = Fin 1,
       x_0 = map (\<lambda>b. 1 / 2) bounds, var_names = names, nice_var_names = names,
       var_bounds = map (\<lambda>b. (0, 1)) bounds, var_real_bounds = bounds,
       opt_results_file = Some [Header (names @ [''Objective''])], world = (0, 0) \<rparr>"

section \<open>The stage models\<close>

subsection \<open>Properties of a Python class\<close>

text \<open>
  The parameters of the stage classes of \<^verbatim>\<open>vebio/RunFunctions.py\<close> are Python properties.
  \<^verbatim>\<open>@property def n\<close> binds the name \<open>n\<close> of the class to a property with that getter
  and no setter. \<^verbatim>\<open>@p.setter def n\<close> looks the property \<open>p\<close> up, copies it with the
  decorated function as its setter, and binds the copy to the name \<open>n\<close> of the function
  (not to \<open>p\<close>). A later binding of a name replaces the earlier one.

  A value passed to a setter is a number or a string. The state a setter acts on is the
  object \<open>'s\<close> together with the shared parameter document.
\<close>

type_synonym 's setter = "yaml_value \<Rightarrow> 's \<times> yaml_doc \<Rightarrow> error option \<times> 's \<times> yaml_doc"

record 's property =
  fget :: "'s \<Rightarrow> yaml_value"
  fset :: "'s setter option"

datatype 's class_stmt =
    PropertyDef string "'s \<Rightarrow> yaml_value"
  | SetterDef string string "'s setter"

type_synonym 's class_ns = "string \<Rightarrow> 's property option"

fun exec_stmt :: "'s class_stmt \<Rightarrow> 's class_ns \<Rightarrow> error + 's class_ns" where
  "exec_stmt (PropertyDef name getter) ns = Inr (ns(name \<mapsto> \<lparr>fget = getter, fset = None\<rparr>))"
| "exec_stmt (SetterDef pname name f) ns =
     (case ns pname of
        None \<Rightarrow> Inl (NameError pname)
      | Some p \<Rightarrow> Inr (ns(name \<mapsto> p\<lparr>fset := Some f\<rparr>)))"

fun exec_body :: "'s class_stmt list \<Rightarrow> 's class_ns \<Rightarrow> error + 's class_ns" where
  "exec_body [] ns = Inr ns"
| "exec_body (stmt # rest) ns =
     (case exec_stmt stmt ns of
        Inl e \<Rightarrow> Inl e
      | Inr ns' \<Rightarrow> exec_body rest ns')"

text \<open>
  \<^verbatim>\<open>setattr(obj, name, value)\<close> for a name the class binds to a property: an
  \<^verbatim>\<open>AttributeError\<close> when the property has no setter, the setter's effect otherwise. For
  any other name the result is \<open>None\<close>: a plain attribute assignment, which these
  definitions do not describe.
\<close>

definition set_property ::
  "'s class_ns \<Rightarrow> string \<Rightarrow> yaml_value \<Rightarrow> 's \<times> yaml_doc \<Rightarrow> (error option \<times> 's \<times> yaml_doc) option" where
  "set_property ns name v st =
     (case ns name of
        None \<Rightarrow> None
      | Some p \<Rightarrow>
          (case fset p of
             None \<Rightarrow> Some (Some (AttributeError name), st)
           | Some f \<Rightarrow> Some (f v st)))"

definition get_property :: "'s class_ns \<Rightarrow> string \<Rightarrow> 's \<Rightarrow> yaml_value option" where
  "get_property ns name self = map_option (\<lambda>p. fget p self) (ns name)"

subsection \<open>Range-checked setters\<close>

text \<open>
  Modelled from the spec: \<^verbatim>\<open>yaml_to_dict\<close> and \<^verbatim>\<open>dict_to_yaml\<close> of \<^verbatim>\<open>vebio.Utilities\<close>
  are missing from the sources. \<^verbatim>\<open>input2yaml(rewrite=True)\<close> reads the document, replaces
  the section of the stage and writes the document back (``merge into existing persisted
  document, replacing only this stage's section'').
\<close>

definition rewrite_section :: "string \<Rightarrow> (string \<times> yaml_value) list \<Rightarrow> yaml_doc \<Rightarrow> yaml_doc" where
  "rewrite_section name entries doc = doc(name \<mapsto> map_of entries)"

text \<open>
  The common shape of the numeric setters:
  \<^verbatim>\<open>if not <check>: raise ValueError(f"Value {a} is outside allowed interval <txt>")\<close>,
  then the assignment of \<^verbatim>\<open>float(a)\<close> and \<^verbatim>\<open>self.input2yaml(rewrite=True)\<close>. Comparing a
  string with a number raises \<^verbatim>\<open>TypeError\<close>; every comparison with NaN is false, so NaN
  fails each of the checks.
\<close>

fun checked_set ::
  "(real \<Rightarrow> bool) \<Rightarrow> string \<Rightarrow> (real \<Rightarrow> 's \<Rightarrow> 's) \<Rightarrow> ('s \<Rightarrow> yaml_doc \<Rightarrow> yaml_doc) \<Rightarrow> 's setter" where
  "checked_set ok txt store input2yaml (YStr s) (self, doc) = (Some TypeError, self, doc)"
| "checked_set ok txt store input2yaml (YNum NaN) (self, doc) =
     (Some (ValueOutside NaN txt), self, doc)"
| "checked_set ok txt store input2yaml (YNum (Fin a)) (self, doc) =
     (if \<not> ok a then (Some (ValueOutside (Fin a) txt), self, doc)
      else (None, store a self, input2yaml (store a self) doc))"

subsection \<open>Feedstock\<close>

record feedstock =
  fs_xylan_solid_fraction :: real
  fs_glucan_solid_fraction :: real
  fs_initial_porosity :: real

definition Feedstock_input2yaml :: "feedstock \<Rightarrow> yaml_doc \<Rightarrow> yaml_doc" where
  "Feedstock_input2yaml self =
     rewrite_section ''feedstock''
       [(''xylan_solid_fraction'', YNum (Fin (fs_xylan_solid_fraction self))),
        (''glucan_solid_fraction'', YNum (Fin (fs_glucan_solid_fraction self))),
        (''initial_porosity'', YNum (Fin (fs_initial_porosity self)))]"

definition Feedstock_body :: "feedstock class_stmt list" where
  "Feedstock_body =
     [PropertyDef ''xylan_solid_fraction'' (\<lambda>self. YNum (Fin (fs_xylan_solid_fraction self))),
      SetterDef ''xylan_solid_fraction'' ''xylan_solid_fraction''
        (checked_set (\<lambda>a. 0 \<le> a \<and> a \<le> 1) ''[0, 1]''
           (\<lambda>a self. self\<lparr>fs_xylan_solid_fraction := a\<rparr>) Feedstock_input2yaml),
      PropertyDef ''glucan_solid_fraction'' (\<lambda>self. YNum (Fin (fs_glucan_solid_fraction self))),
      SetterDef ''glucan_solid_fraction'' ''glucan_solid_fraction''
        (checked_set (\<lambda>a. 0 \<le> a \<and> a \<le> 1) ''[0, 1]''
           (\<lambda>a self. self\<lparr>fs_glucan_solid_fraction := a\<rparr>) Feedstock_input2yaml),
      PropertyDef ''initial_porosity'' (\<lambda>self. YNum (Fin (fs_initial_porosity self))),
      SetterDef ''initial_porosity'' ''initial_porosity''
        (checked_set (\<lambda>a. 0 < a \<and> a < 1) ''(0, 1)''
           (\<lambda>a self. self\<lparr>fs_initial_porosity := a\<rparr>) Feedstock_input2yaml)]"

subsection \<open>Pretreatment\<close>

text \<open>The steam temperature is kept in kelvin and the final time in seconds.\<close>

record pretreatment =
  pt_initial_acid_conc :: real
  pt_steam_temperature :: real
  pt_initial_solid_fraction :: real
  pt_final_time :: real
  pt_bulk_steam_conc :: real

definition Pretreatment_input2yaml :: "pretreatment \<Rightarrow> yaml_doc \<Rightarrow> yaml_doc" where
  "Pretreatment_input2yaml self =
     rewrite_section ''pretreatment_input''
       [(''initial_acid_conc'', YNum (Fin (pt_initial_acid_conc self))),
        (''steam_temperature'', YNum (Fin (pt_steam_temperature self))),
        (''initial_solid_fraction'', YNum (Fin (pt_initial_solid_fraction self))),
        (''bulk_steam_conc'', YNum (Fin (pt_bulk_steam_conc self))),
        (''final_time'', YNum (Fin (pt_final_time self)))]"

definition Pretreatment_body :: "pretreatment class_stmt list" where
  "Pretreatment_body =
     [PropertyDef ''initial_acid_conc'' (\<lambda>self. YNum (Fin (pt_initial_acid_conc self))),
      SetterDef ''initial_acid_conc'' ''initial_acid_conc''
        (checked_set (\<lambda>a. 0 \<le> a \<and> a \<le> 1) ''[0.0, 1.0]''
           (\<lambda>a self. self\<lparr>pt_initial_acid_conc := a\<rparr>) Pretreatment_input2yaml),
      PropertyDef ''steam_temperature'' (\<lambda>self. YNum (Fin (pt_steam_temperature self - 273.15))),
      SetterDef ''steam_temperature'' ''steam_temperature''
        (checked_set (\<lambda>a. 3.8 \<le> a \<and> a \<le> 250.3) ''[3.8, 250.3]''
           (\<lambda>a self. self\<lparr>pt_steam_temperature := a + 273.15\<rparr>) Pretreatment_input2yaml),
      PropertyDef ''initial_solid_fraction'' (\<lambda>self. YNum (Fin (pt_initial_solid_fraction self))),
      SetterDef ''initial_solid_fraction'' ''initial_solid_fraction''
        (checked_set (\<lambda>a. 0 < a \<and> a < 1) ''(0, 1)''
           (\<lambda>a self. self\<lparr>pt_initial_solid_fraction := a\<rparr>) Pretreatment_input2yaml),
      PropertyDef ''final_time'' (\<lambda>self. YNum (Fin (pt_final_time self / 60))),
      SetterDef ''final_time'' ''final_time''
        (checked_set (\<lambda>a. 1 \<le> a \<and> a \<le> 1440) ''[1, 1440]''
           (\<lambda>a self. self\<lparr>pt_final_time := 60 * a\<rparr>) Pretreatment_input2yaml),
      PropertyDef ''bulk_steam_conc'' (\<lambda>self. YNum (Fin (pt_bulk_steam_conc self))),
      SetterDef ''bulk_steam_conc'' ''bulk_steam_conc''
        (checked_set (\<lambda>a. 0 < a \<and> a < 1) ''[0, 1]''
           (\<lambda>a self. self\<lparr>pt_bulk_steam_conc := a\<rparr>) Pretreatment_input2yaml)]"

subsection \<open>Enzymatic hydrolysis\<close>

datatype eh_run_function =
    run_eh_cfd_simulation
  | run_eh_cfd_surrogate
  | run_eh_lignocellulose_model

text \<open>The enzyme loading is kept in kg/kg; \<open>eh_run\<close> is the method bound to \<^verbatim>\<open>self.run\<close>.\<close>

record enzymatic_hydrolysis =
  eh_hpc_run :: bool
  eh_lambda_e :: real
  eh_fis_0 :: real
  eh_t_final :: real
  eh_model_type :: string
  eh_run :: eh_run_function

definition EnzymaticHydrolysis_input2yaml :: "enzymatic_hydrolysis \<Rightarrow> yaml_doc \<Rightarrow> yaml_doc" where
  "EnzymaticHydrolysis_input2yaml self =
     rewrite_section ''enzymatic_input''
       [(''model_type'', YStr (eh_model_type self)),
        (''lambda_e'', YNum (Fin (eh_lambda_e self))),
        (''fis_0'', YNum (Fin (eh_fis_0 self))),
        (''t_final'', YNum (Fin (eh_t_final self)))]"

definition EnzymaticHydrolysis_select_run_function ::
  "enzymatic_hydrolysis \<Rightarrow> error option \<times> enzymatic_hydrolysis" where
  "EnzymaticHydrolysis_select_run_function self =
     (if eh_model_type self = ''CFD Simulation''
      then (if eh_hpc_run self then (None, self\<lparr>eh_run := run_eh_cfd_simulation\<rparr>)
            else (Some AssertionError, self))
      else if eh_model_type self = ''CFD Surrogate''
      then (None, self\<lparr>eh_run := run_eh_cfd_surrogate\<rparr>)
      else if eh_model_type self = ''Lignocellulose Model''
      then (None, self\<lparr>eh_run := run_eh_lignocellulose_model\<rparr>)
      else (None, self))"

definition invalid_eh_model_message :: string where
  "invalid_eh_model_message =
     ''Invalid value. Allowed options: '' @ [CHR 0x27] @ ''CFD Simulation'' @ [CHR 0x27] @
     '', '' @ [CHR 0x27] @ ''CFD Surrogate'' @ [CHR 0x27] @
     '', '' @ [CHR 0x27] @ ''Lignocellulose Model'' @ [CHR 0x27]"

fun EnzymaticHydrolysis_set_model_type :: "enzymatic_hydrolysis setter" where
  "EnzymaticHydrolysis_set_model_type (YNum a) (self, doc) =
     (Some (ValueError invalid_eh_model_message), self, doc)"
| "EnzymaticHydrolysis_set_model_type (YStr a) (self, doc) =
     (if \<not> (a \<in> set [''CFD Simulation'', ''CFD Surrogate'', ''Lignocellulose Model''])
      then (Some (ValueError invalid_eh_model_message), self, doc)
      else (let self1 = self\<lparr>eh_model_type := a\<rparr>;
                doc1 = EnzymaticHydrolysis_input2yaml self1 doc
            in case EnzymaticHydrolysis_select_run_function self1 of
                 (e, self2) \<Rightarrow> (e, self2, doc1)))"

definition EnzymaticHydrolysis_body :: "enzymatic_hydrolysis class_stmt list" where
  "EnzymaticHydrolysis_body =
     [PropertyDef ''lambda_e'' (\<lambda>self. YNum (Fin (eh_lambda_e self * 1000))),
      SetterDef ''lambda_e'' ''lambda_e''
        (checked_set (\<lambda>a. 0 \<le> a \<and> a \<le> 1000) ''[0, 1000]''
           (\<lambda>a self. self\<lparr>eh_lambda_e := a / 1000\<rparr>) EnzymaticHydrolysis_input2yaml),
      PropertyDef ''fis_0'' (\<lambda>self. YNum (Fin (eh_fis_0 self))),
      SetterDef ''fis_0'' ''fis_0''
        (checked_set (\<lambda>a. 0 \<le> a \<and> a \<le> 1) ''[0, 1]''
           (\<lambda>a self. self\<lparr>eh_fis_0 := a\<rparr>) EnzymaticHydrolysis_input2yaml),
      PropertyDef ''t_final'' (\<lambda>self. YNum (Fin (eh_t_final self))),
      SetterDef ''t_final'' ''t_final''
        (checked_set (\<lambda>a. 1 \<le> a \<and> a \<le> 24) ''[1, 24]''
           (\<lambda>a self. self\<lparr>eh_t_final := a\<rparr>) EnzymaticHydrolysis_input2yaml),
      PropertyDef ''model_type'' (\<lambda>self. YStr (eh_model_type self)),
      SetterDef ''model_type'' ''model_type'' EnzymaticHydrolysis_set_model_type]"

subsection \<open>Bioreactor\<close>

datatype br_run_function =
    run_biorector_cfd_simulation
  | run_biorector_cfd_surrogate_method

record bioreactor =
  br_hpc_run :: bool
  br_model_type :: string
  br_gas_velocity :: real
  br_column_height :: real
  br_column_diameter :: real
  br_bubble_diameter :: real
  br_t_final :: real
  br_run :: br_run_function

definition Bioreactor_input2yaml :: "bioreactor \<Rightarrow> yaml_doc \<Rightarrow> yaml_doc" where
  "Bioreactor_input2yaml self =
     rewrite_section ''bioreactor_input''
       [(''model_type'', YStr (br_model_type self)),
        (''gas_velocity'', YNum (Fin (br_gas_velocity self))),
        (''column_height'', YNum (Fin (br_column_height self))),
        (''column_diameter'', YNum (Fin (br_column_diameter self))),
        (''bubble_diameter'', YNum (Fin (br_bubble_diameter self))),
        (''t_final'', YNum (Fin (br_t_final self)))]"

definition Bioreactor_select_run_function :: "bioreactor \<Rightarrow> error option \<times> bioreactor" where
  "Bioreactor_select_run_function self =
     (if br_model_type self = ''CFD Simulation''
      then (if br_hpc_run self then (None, self\<lparr>br_run := run_biorector_cfd_simulation\<rparr>)
            else (Some AssertionError, self))
      else if br_model_type self = ''CFD Surrogate''
      then (None, self\<lparr>br_run := run_biorector_cfd_surrogate_method\<rparr>)
      else (None, self))"

definition invalid_br_model_message :: string where
  "invalid_br_model_message =
     ''Invalid value. Allowed options: '' @ [CHR 0x27] @ ''CFD Simulation'' @ [CHR 0x27] @
     '', '' @ [CHR 0x27] @ ''CFD Surrogate'' @ [CHR 0x27]"

fun Bioreactor_set_model_type :: "bioreactor setter" where
  "Bioreactor_set_model_type (YNum a) (self, doc) =
     (Some (ValueError invalid_br_model_message), self, doc)"
| "Bioreactor_set_model_type (YStr a) (self, doc) =
     (if \<not> (a \<in> set [''CFD Simulation'', ''CFD Surrogate''])
      then (Some (ValueError invalid_br_model_message), self, doc)
      else (let self1 = self\<lparr>br_model_type := a\<rparr>;
                doc1 = Bioreactor_input2yaml self1 doc
            in case Bioreactor_select_run_function self1 of
                 (e, self2) \<Rightarrow> (e, self2, doc1)))"

text \<open>
  The setter of \<^verbatim>\<open>gas_velocity\<close> tests \<^verbatim>\<open>self._model_type is 'surrogate'\<close>, an identity
  test. It can hold only for a model type equal to \<open>surrogate\<close>, and then holds exactly
  when the interpreter shares the two string objects, which is the parameter \<open>shared\<close>.
\<close>

fun Bioreactor_set_gas_velocity :: "bool \<Rightarrow> bioreactor setter" where
  "Bioreactor_set_gas_velocity shared v (self, doc) =
     (if shared \<and> br_model_type self = ''surrogate''
      then checked_set (\<lambda>a. 0.01 \<le> a \<and> a \<le> 0.1) ''[1, 1e16]''
             (\<lambda>a self. self\<lparr>br_gas_velocity := a\<rparr>) Bioreactor_input2yaml v (self, doc)
      else checked_set (\<lambda>a. 0.0 \<le> a) ''[1, 1e16]''
             (\<lambda>a self. self\<lparr>br_gas_velocity := a\<rparr>) Bioreactor_input2yaml v (self, doc))"

text \<open>
  The property statements of the class in the order of the source. The functions
  decorated with \<^verbatim>\<open>@column_height.setter\<close> and \<^verbatim>\<open>@bubble_diameter.setter\<close> are both
  named \<^verbatim>\<open>t_final\<close>.
\<close>

definition Bioreactor_body :: "bool \<Rightarrow> bioreactor class_stmt list" where
  "Bioreactor_body shared =
     [PropertyDef ''gas_velocity'' (\<lambda>self. YNum (Fin (br_gas_velocity self))),
      SetterDef ''gas_velocity'' ''gas_velocity'' (Bioreactor_set_gas_velocity shared),
      PropertyDef ''column_height'' (\<lambda>self. YNum (Fin (br_column_height self))),
      SetterDef ''column_height'' ''t_final''
        (checked_set (\<lambda>a. 10 \<le> a \<and> a \<le> 50) ''[1, 1e16]''
           (\<lambda>a self. self\<lparr>br_column_height := a\<rparr>) Bioreactor_input2yaml),
      PropertyDef ''column_diameter'' (\<lambda>self. YNum (Fin (br_column_diameter self))),
      SetterDef ''column_diameter'' ''column_diameter''
        (checked_set (\<lambda>a. 1 \<le> a \<and> a \<le> 6) ''[1, 1e16]''
           (\<lambda>a self. self\<lparr>br_column_diameter := a\<rparr>) Bioreactor_input2yaml),
      PropertyDef ''bubble_diameter'' (\<lambda>self. YNum (Fin (br_bubble_diameter self))),
      SetterDef ''bubble_diameter'' ''t_final''
        (checked_set (\<lambda>a. 0.003 \<le> a \<and> a \<le> 0.008) ''[1, 1e16]''
           (\<lambda>a self. self\<lparr>br_bubble_diameter := a\<rparr>) Bioreactor_input2yaml),
      PropertyDef ''t_final'' (\<lambda>self. YNum (Fin (br_t_final self))),
      SetterDef ''t_final'' ''t_final''
        (checked_set (\<lambda>a. 1 \<le> a \<and> a \<le> 10 ^ 16) ''[1, 1e16]''
           (\<lambda>a self. self\<lparr>br_t_final := a\<rparr>) Bioreactor_input2yaml),
      PropertyDef ''model_type'' (\<lambda>self. YStr (br_model_type self)),
      SetterDef ''model_type'' ''model_type'' Bioreactor_set_model_type]"

text \<open>
  \<^verbatim>\<open>run_biorector_cfd_surrogate\<close>. \<open>main\<close> is the surrogate model
  (\<^verbatim>\<open>bcolumn_surrogate.main\<close>), which returns the parameters it computed and leaves a new
  parameter file; \<open>check_dict_for_nans\<close> is the function of \<^verbatim>\<open>vebio.Utilities\<close>. Both are
  outside the modelled sources and are parameters. The result \<open>Inr None\<close> is Python's
  \<^verbatim>\<open>None\<close>, returned when the function body ends without a \<^verbatim>\<open>return\<close>.
\<close>

definition run_biorector_cfd_surrogate ::
  "(yaml_doc \<Rightarrow> error + yaml_doc \<times> yaml_doc) \<Rightarrow> (yaml_section \<Rightarrow> bool) \<Rightarrow> yaml_doc
     \<Rightarrow> (error + bool option) \<times> yaml_doc" where
  "run_biorector_cfd_surrogate main check_dict_for_nans doc =
     (case doc ''enzymatic_output'' of
        None \<Rightarrow> (Inl (KeyError ''enzymatic_output''), doc)
      | Some sec \<Rightarrow>
     (case sec ''rho_g'' of
        None \<Rightarrow> (Inl (KeyError ''rho_g''), doc)
      | Some (YStr s) \<Rightarrow> (Inl TypeError, doc)
      | Some (YNum NaN) \<Rightarrow> (Inr None, doc)
      | Some (YNum (Fin r)) \<Rightarrow>
     (case main doc of
        Inl e \<Rightarrow> (Inl e, doc)
      | Inr (ve_params, doc') \<Rightarrow>
     (case ve_params ''bioreactor_output'' of
        None \<Rightarrow> (Inl (KeyError ''bioreactor_output''), doc')
      | Some out \<Rightarrow>
          if check_dict_for_nans out then (Inr (Some True), doc')
          else (Inr (Some False), doc')))))"

text \<open>A Bioreactor object with the surrogate model selected.\<close>

definition bubble_column :: bioreactor where
  "bubble_column =
     \<lparr> br_hpc_run = False, br_model_type = ''CFD Surrogate'', br_gas_velocity = 0.05,
       br_column_height = 40, br_column_diameter = 5, br_bubble_diameter = 0.006,
       br_t_final = 100, br_run = run_biorector_cfd_surrogate_method \<rparr>"

section \<open>Round trip of the scaling\<close>

text \<open>
  Claim C2. For bounds \<open>(lb, ub)\<close> with \<open>ub > lb\<close> and a value \<open>v\<close> in \<open>[lb, ub]\<close>,
  normalising \<open>v\<close> succeeds and scaling the result back gives \<open>v\<close> again (exactly, over
  the reals).
\<close>

theorem scale_back_normalize_roundtrip:
  assumes "lb < ub" and "lb \<le> v" and "v \<le> ub"
  shows "\<exists>x. normalize_value v (lb, ub) = Inr x \<and> scale_back x (lb, ub) = v"
  using assms by simp

theorem scale_back_normalize_roundtrip_witness:
  "(10::real) < 20 \<and> (10::real) \<le> 15 \<and> (15::real) \<le> 20 \<and>
   (\<exists>x. normalize_value 15 (10, 20) = Inr x \<and> scale_back x (10, 20) = 15)"
  using scale_back_normalize_roundtrip [of 10 20 15] by simp

section \<open>Stage count\<close>

text \<open>
  Claim C3. \<open>define_n_models\<close> returns 1 for \<open>pretreatment_output\<close>, 2 for
  \<open>enzymatic_output\<close>, 3 for \<open>bioreactor_output\<close>, and for every other string raises the
  ValueError whose message quotes that string.
\<close>

theorem define_n_models_cases:
  "define_n_models ''pretreatment_output'' = Inr 1 \<and>
   define_n_models ''enzymatic_output'' = Inr 2 \<and>
   define_n_models ''bioreactor_output'' = Inr 3 \<and>
   (name \<notin> {''pretreatment_output'', ''enzymatic_output'', ''bioreactor_output''} \<longrightarrow>
      define_n_models name = Inl (ValueError (unknown_output_message name)) \<and>
      (\<exists>pre post. unknown_output_message name = pre @ name @ post))"
proof -
  have "\<exists>pre post. unknown_output_message name = pre @ name @ post"
    unfolding unknown_output_message_def by (metis append.assoc)
  then show ?thesis
    by (simp add: define_n_models_def output_names_def)
qed

theorem define_n_models_cases_witness:
  "''glucose'' \<notin> {''pretreatment_output'', ''enzymatic_output'', ''bioreactor_output''} \<and>
   define_n_models ''glucose'' = Inl (ValueError (unknown_output_message ''glucose''))"
  using define_n_models_cases [of "''glucose''"] by simp

section \<open>Properties of the objective evaluator\<close>

lemma objective_function_success:
  assumes "objective_function yd xs self = (Inr y, self')"
  shows "\<exists>file_lines r w.
           run_models_with_new_values yd self (to_dimensional self xs) (fn_evals self = 0) = (Inr (YNum r), w) \<and>
           opt_results_file self = Some file_lines \<and>
           opt_results_file self' =
             Some (file_lines @ [Row (fn_evals self + 1) (to_dimensional self xs) (fneg r)]) \<and>
           fn_evals self' = fn_evals self + 1 \<and>
           world self' = w \<and>
           y = fmul (fneg r) (objective_scaling self')"
  using assms
  unfolding objective_function_def Let_def
  by (auto split: prod.splits sum.splits yaml_value.splits option.splits if_splits simp: map_sum_def)

lemma length_to_dimensional:
  "length (to_dimensional self xs) \<le> length (var_real_bounds self)"
  by (simp add: to_dimensional_def)

lemma objective_function_first:
  assumes "fn_evals self = 0" and "opt_results_file self = Some file_lines"
    and "run_models_with_new_values yd self (to_dimensional self xs) True = (Inr (YNum (Fin r)), w)"
    and "length (var_real_bounds self) \<le> length (var_names self)"
    and "r \<noteq> 0"
  shows "objective_function yd xs self =
           (Inr (Fin (- 1)),
            self\<lparr>world := w, objective_scaling := Fin (1 / r), fn_evals := 1,
                 opt_results_file := Some (file_lines @ [Row 1 (to_dimensional self xs) (Fin (- r))])\<rparr>)"
  using assms length_to_dimensional [of self xs]
  unfolding objective_function_def Let_def
  by (simp add: map_sum_def)

lemma objective_function_later:
  assumes "fn_evals self \<noteq> 0" and "opt_results_file self = Some file_lines"
    and "run_models_with_new_values yd self (to_dimensional self xs) False = (Inr (YNum r), w)"
    and "length (var_real_bounds self) \<le> length (var_names self)"
  shows "objective_function yd xs self =
           (Inr (fmul (fneg r) (objective_scaling self)),
            self\<lparr>world := w, fn_evals := fn_evals self + 1,
                 opt_results_file := Some (file_lines @ [Row (fn_evals self + 1) (to_dimensional self xs) (fneg r)])\<rparr>)"
  using assms length_to_dimensional [of self xs]
  unfolding objective_function_def Let_def
  by simp


text \<open>
  Claim C1, as the code has it. On the first evaluation (\<open>fn_evals = 0\<close>) with a pipeline
  result of \<open>-4.0\<close> the evaluator negates the result to \<open>4.0\<close>, sets \<open>objective_scaling\<close>
  to \<open>-1.0/4.0 = -0.25\<close> and returns \<open>-1.0\<close>; a second evaluation with a pipeline result
  of \<open>-2.0\<close> returns \<open>-0.5\<close>.
\<close>

theorem objective_function_first_two_calls:
  assumes "fn_evals self = 0" and "opt_results_file self = Some file_lines"
    and "run_models_with_new_values yd self (to_dimensional self xs) True = (Inr (YNum (Fin (- 4))), w1)"
    and "length (var_real_bounds self) \<le> length (var_names self)"
  shows "\<exists>self1. objective_function yd xs self = (Inr (Fin (- 1)), self1) \<and>
                  objective_scaling self1 = Fin (- 1 / 4) \<and>
                  (\<forall>ys w2. run_models_with_new_values yd self1 (to_dimensional self1 ys) False
                              = (Inr (YNum (Fin (- 2))), w2) \<longrightarrow>
                           fst (objective_function yd ys self1) = Inr (Fin (- 1 / 2)))"
proof -
  let ?self1 = "self\<lparr>world := w1, objective_scaling := Fin (1 / (- 4)), fn_evals := 1,
                 opt_results_file := Some (file_lines @ [Row 1 (to_dimensional self xs) (Fin (- (- 4)))])\<rparr>"
  have first: "objective_function yd xs self = (Inr (Fin (- 1)), ?self1)"
    using objective_function_first [OF assms] by simp
  have later: "fst (objective_function yd ys ?self1) = Inr (Fin (- 1 / 2))"
    if "run_models_with_new_values yd ?self1 (to_dimensional ?self1 ys) False = (Inr (YNum (Fin (- 2))), w2)"
    for ys w2
    using objective_function_later [OF _ _ that] assms(4) by simp
  show ?thesis
    using first later by (intro exI [of _ ?self1]) simp
qed

theorem objective_function_first_two_calls_witness:
  "fn_evals (pair_self [''a''] [(- 1, 0)]) = 0 \<and>
   fst (run_models_with_new_values pair_yaml_to_dict (pair_self [''a''] [(- 1, 0)])
          (to_dimensional (pair_self [''a''] [(- 1, 0)]) [0]) True) = Inr (YNum (Fin (- 4))) \<and>
   fst (objective_function pair_yaml_to_dict [0] (pair_self [''a''] [(- 1, 0)])) = Inr (Fin (- 1)) \<and>
   objective_scaling (snd (objective_function pair_yaml_to_dict [0] (pair_self [''a''] [(- 1, 0)])))
     = Fin (- 1 / 4) \<and>
   fst (objective_function pair_yaml_to_dict [1 / 2]
          (snd (objective_function pair_yaml_to_dict [0] (pair_self [''a''] [(- 1, 0)]))))
     = Inr (Fin (- 1 / 2))"
proof -
  let ?s = "pair_self [''a''] [(- 1, 0)]"
  have run: "run_models_with_new_values pair_yaml_to_dict ?s (to_dimensional ?s [0]) True
               = (Inr (YNum (Fin (- 4))), (- 1, 0))"
    by (simp add: run_models_with_new_values_def pair_self_def to_dimensional_def pair_stage_def
        pair_yaml_to_dict_def read_objective_def)
  have ev: "fn_evals ?s = 0"
    and fl: "opt_results_file ?s = Some [Header ([''a''] @ [''Objective''])]"
    and nm: "length (var_real_bounds ?s) \<le> length (var_names ?s)"
    by (simp_all add: pair_self_def)
  from objective_function_first_two_calls [OF ev fl run nm]
  obtain self1 where
    first: "objective_function pair_yaml_to_dict [0] ?s = (Inr (Fin (- 1)), self1)"
    and sc: "objective_scaling self1 = Fin (- 1 / 4)"
    and later: "\<And>ys w2. run_models_with_new_values pair_yaml_to_dict self1 (to_dimensional self1 ys) False
                   = (Inr (YNum (Fin (- 2))), w2)
                 \<Longrightarrow> fst (objective_function pair_yaml_to_dict ys self1) = Inr (Fin (- 1 / 2))"
    by blast
  have self1: "self1 = ?s\<lparr>world := (- 1, 0), objective_scaling := Fin (- 1 / 4), fn_evals := 1,
                 opt_results_file := Some ([Header ([''a''] @ [''Objective''])]
                                           @ [Row 1 (to_dimensional ?s [0]) (Fin 4)])\<rparr>"
    using first objective_function_first [OF ev fl run nm] by simp
  have run2: "run_models_with_new_values pair_yaml_to_dict self1 (to_dimensional self1 [1 / 2]) False
               = (Inr (YNum (Fin (- 2))), (- 1 / 2, 0))"
    unfolding self1
    by (simp add: run_models_with_new_values_def pair_self_def to_dimensional_def pair_stage_def
        pair_yaml_to_dict_def read_objective_def)
  from later [OF run2] first sc run ev show ?thesis by simp
qed

text \<open>
  On the concrete pipeline, with the pipeline result \<open>-4.0\<close> on the first evaluation, the
  scaling factor is not \<open>0.25\<close>.
\<close>

theorem objective_scaling_sign_counterexample:
  "fn_evals (pair_self [''a''] [(- 1, 0)]) = 0 \<and>
   fst (run_models_with_new_values pair_yaml_to_dict (pair_self [''a''] [(- 1, 0)])
          (to_dimensional (pair_self [''a''] [(- 1, 0)]) [0]) True) = Inr (YNum (Fin (- 4))) \<and>
   objective_scaling (snd (objective_function pair_yaml_to_dict [0] (pair_self [''a''] [(- 1, 0)])))
     \<noteq> Fin (1 / 4)"
  by (simp add: objective_function_def run_models_with_new_values_def pair_self_def to_dimensional_def
      pair_stage_def pair_yaml_to_dict_def read_objective_def map_sum_def)








section \<open>Properties of the constructor\<close>

lemma collect_controls_append:
  "collect_controls (xs @ ys) self =
     (case collect_controls xs self of Inl e \<Rightarrow> Inl e | Inr s \<Rightarrow> collect_controls ys s)"
  by (induction xs self rule: collect_controls.induct) (auto split: sum.splits)

lemma collect_all_concat: "collect_all wcs self = collect_controls (concat wcs) self"
  by (induction wcs arbitrary: self) (auto simp: collect_controls_append split: sum.splits)

lemma collect_controls_filter:
  "collect_controls (filter is_selected wc) self = collect_controls wc self"
  by (induction wc self rule: collect_controls.induct) (auto split: sum.splits)

lemma Optimization_init_selected:
  "Optimization_init args w =
     (case init_models args w of
        Inl e \<Rightarrow> Inl e
      | Inr self \<Rightarrow>
     (case collect_controls (selected_controls args) self of
        Inl e \<Rightarrow> Inl e
      | Inr self' \<Rightarrow>
          if length (x_0 self') = 0 then Inl (ValueError no_controls_message)
          else Inr self'))"
proof -
  have "collect_all [fs_options args, pt_options args, eh_options args] self
          = collect_controls (selected_controls args) self" for self :: "'a optimization"
    unfolding selected_controls_def collect_controls_filter
    by (simp add: collect_all_concat)
  then show ?thesis
    by (simp add: Optimization_init_def split: sum.splits)
qed

lemma collect_controls_degenerate:
  "(name, OptimizationWidget True b b v descr) \<in> set wc \<Longrightarrow> \<exists>e. collect_controls wc self = Inl e"
  by (induction wc self rule: collect_controls.induct) (auto split: sum.splits)

lemma collect_controls_length:
  "collect_controls wc self = Inr self' \<Longrightarrow>
     length (x_0 self') = length (x_0 self) + length (filter is_selected wc)"
  by (induction wc self rule: collect_controls.induct) (auto split: sum.splits if_splits)

lemma init_models_x_0: "init_models args w = Inr self \<Longrightarrow> x_0 self = []"
  unfolding init_models_def
  by (auto split: sum.splits prod.splits if_splits)

text \<open>
  Claim C7. If a selected control has equal lower and upper bound, the constructor
  raises: no driver object exists on which an evaluation could be made.
\<close>

theorem degenerate_bounds_rejected:
  assumes "(name, OptimizationWidget True b b v descr) \<in> set (selected_controls args)"
  shows "\<exists>e. Optimization_init args w = Inl e"
proof (cases "init_models args w")
  case (Inl e)
  then show ?thesis by (simp add: Optimization_init_selected)
next
  case (Inr self)
  from collect_controls_degenerate [OF assms, of self] Inr
  show ?thesis by (auto simp: Optimization_init_selected)
qed

theorem degenerate_bounds_rejected_witness:
  "(''a'', OptimizationWidget True 3 3 3 ''A'')
     \<in> set (selected_controls (pair_args [(''a'', OptimizationWidget True 3 3 3 ''A'')] [] [])) \<and>
   (\<exists>e. Optimization_init (pair_args [(''a'', OptimizationWidget True 3 3 3 ''A'')] [] []) (0, 0) = Inl e)"
proof -
  have h: "(''a'', OptimizationWidget True 3 3 3 ''A'')
     \<in> set (selected_controls (pair_args [(''a'', OptimizationWidget True 3 3 3 ''A'')] [] []))"
    by (simp add: selected_controls_def pair_args_def)
  from h degenerate_bounds_rejected [OF h] show ?thesis by blast
qed

lemma init_models_empty:
  "init_models args w = Inr self \<Longrightarrow>
     var_names self = [] \<and> nice_var_names self = [] \<and> var_real_bounds self = [] \<and>
     var_bounds self = []"
  unfolding init_models_def
  by (auto split: sum.splits prod.splits if_splits)

lemma Optimization_init_single:
  assumes "selected_controls args = [(name, OptimizationWidget True lo hi v descr)]"
    and "lo \<noteq> hi" and "init_models args w = Inr s0"
  shows "Optimization_init args w =
           Inr (s0\<lparr> x_0 := [(v - lo) / (hi - lo)], var_names := [name],
                    nice_var_names := [descr], var_real_bounds := [(lo, hi)],
                    var_bounds := [(0, 1)] \<rparr>)"
  using assms init_models_x_0 [OF assms(3)] init_models_empty [OF assms(3)]
  by (simp add: Optimization_init_selected)

text \<open>
  Claim C8. With no selected control the constructor raises; once the stage models are
  built, the exception is the ValueError of the empty control list. With exactly one
  selected control, in whichever of the three widget collections it is, a constructed
  driver has an optimization vector of length 1; and the driver is constructed, with
  the normalised value of the control as its vector, whenever the stage models are built
  and the bounds of the control differ.
\<close>

theorem control_count:
  "(selected_controls args = [] \<longrightarrow>
      (\<exists>e. Optimization_init args w = Inl e) \<and>
      (\<forall>self. init_models args w = Inr self \<longrightarrow>
          Optimization_init args w = Inl (ValueError no_controls_message))) \<and>
   (length (selected_controls args) = 1 \<longrightarrow>
      (\<forall>self. Optimization_init args w = Inr self \<longrightarrow> length (x_0 self) = 1)) \<and>
   (\<forall>name lo hi v descr s0.
      selected_controls args = [(name, OptimizationWidget True lo hi v descr)] \<and>
      lo \<noteq> hi \<and> init_models args w = Inr s0 \<longrightarrow>
      (\<exists>self. Optimization_init args w = Inr self \<and>
          x_0 self = [(v - lo) / (hi - lo)] \<and> length (x_0 self) = 1 \<and>
          var_names self = [name] \<and> nice_var_names self = [descr] \<and>
          var_real_bounds self = [(lo, hi)] \<and> var_bounds self = [(0, 1)] \<and>
          fn_evals self = 0 \<and> objective_scaling self = Fin 1))"
proof (intro conjI impI allI)
  assume e: "selected_controls args = []"
  then show "\<exists>e. Optimization_init args w = Inl e"
    by (cases "init_models args w")
       (auto simp: Optimization_init_selected dest: init_models_x_0)
  fix self assume "init_models args w = Inr self"
  with e show "Optimization_init args w = Inl (ValueError no_controls_message)"
    by (auto simp: Optimization_init_selected dest: init_models_x_0)
next
  fix self
  assume one: "length (selected_controls args) = 1"
    and ok: "Optimization_init args w = Inr self"
  from ok obtain s0 where s0: "init_models args w = Inr s0"
    and c: "collect_controls (selected_controls args) s0 = Inr self"
    by (auto simp: Optimization_init_selected split: sum.splits if_splits)
  from collect_controls_length [OF c] init_models_x_0 [OF s0] one
  have "length (x_0 self) = 0 + length (filter is_selected (selected_controls args))"
    by simp
  with one show "length (x_0 self) = 1"
    by (simp add: selected_controls_def)
next
  fix name lo hi v descr s0
  assume a: "selected_controls args = [(name, OptimizationWidget True lo hi v descr)] \<and>
      lo \<noteq> hi \<and> init_models args w = Inr s0"
  then have s0: "init_models args w = Inr s0" by simp
  have "fn_evals s0 = 0 \<and> objective_scaling s0 = Fin 1"
    using s0 unfolding init_models_def
    by (auto split: sum.splits prod.splits if_splits)
  with a Optimization_init_single [of args name lo hi v descr w s0]
  show "\<exists>self. Optimization_init args w = Inr self \<and>
          x_0 self = [(v - lo) / (hi - lo)] \<and> length (x_0 self) = 1 \<and>
          var_names self = [name] \<and> nice_var_names self = [descr] \<and>
          var_real_bounds self = [(lo, hi)] \<and> var_bounds self = [(0, 1)] \<and>
          fn_evals self = 0 \<and> objective_scaling self = Fin 1"
    by simp
qed

theorem control_count_witness:
  "selected_controls (pair_args [(''show_plots'', OtherWidget)] [] []) = [] \<and>
   Optimization_init (pair_args [(''show_plots'', OtherWidget)] [] []) (0, 0)
     = Inl (ValueError no_controls_message) \<and>
   (\<exists>self. Optimization_init
              (pair_args [(''a'', OptimizationWidget True 0 4 1 ''A''), (''show_plots'', OtherWidget)]
                 [(''b'', OptimizationWidget False 0 1 1 ''B'')] []) (0, 0) = Inr self \<and>
       x_0 self = [1 / 4] \<and> length (x_0 self) = 1 \<and> var_names self = [''a'']) \<and>
   (\<exists>self. Optimization_init (pair_args [] [(''a'', OptimizationWidget True 0 4 1 ''A'')] []) (0, 0)
              = Inr self \<and>
       x_0 self = [1 / 4] \<and> length (x_0 self) = 1 \<and> var_names self = [''a'']) \<and>
   (\<exists>self. Optimization_init (pair_args [] [] [(''a'', OptimizationWidget True 0 4 1 ''A'')]) (0, 0)
              = Inr self \<and>
       x_0 self = [1 / 4] \<and> length (x_0 self) = 1 \<and> var_names self = [''a''])"
proof -
  let ?c = "(''a'', OptimizationWidget True 0 4 1 ''A'')"
  let ?a0 = "pair_args [(''show_plots'', OtherWidget)] [] []"
  let ?fs = "pair_args [?c, (''show_plots'', OtherWidget)]
               [(''b'', OptimizationWidget False 0 1 1 ''B'')] []"
  let ?pt = "pair_args [] [?c] []"
  let ?eh = "pair_args [] [] [?c]"
  have e: "selected_controls ?a0 = []"
    by (simp add: selected_controls_def pair_args_def)
  have m: "\<exists>s0. init_models a (0, 0) = Inr s0"
    if "a = pair_args fs pt eh" for a :: "(real \<times> real) init_args" and fs pt eh
    by (simp add: that init_models_def pair_args_def define_n_models_def output_names_def)
  have sel: "selected_controls ?fs = [?c]" "selected_controls ?pt = [?c]"
    "selected_controls ?eh = [?c]"
    by (simp_all add: selected_controls_def pair_args_def)
  have ne: "(0::real) \<noteq> 4" by simp
  from control_count [of ?a0 "(0, 0)"] e m [of ?a0]
  have z: "Optimization_init ?a0 (0, 0) = Inl (ValueError no_controls_message)" by blast
  have built: "\<exists>self. Optimization_init a (0, 0) = Inr self \<and>
       x_0 self = [1 / 4] \<and> length (x_0 self) = 1 \<and> var_names self = [''a'']"
    if "selected_controls a = [?c]" and "\<exists>s0. init_models a (0, 0) = Inr s0"
    for a :: "(real \<times> real) init_args"
  proof -
    from that(2) obtain s0 where s0: "init_models a (0, 0) = Inr s0" ..
    from control_count [of a "(0, 0)"] that(1) ne s0
    obtain self where "Optimization_init a (0, 0) = Inr self"
      "x_0 self = [(1 - 0) / (4 - 0)]" "length (x_0 self) = 1" "var_names self = [''a'']"
      by blast
    then show ?thesis by simp
  qed
  from e z built [OF sel(1) m] built [OF sel(2) m] built [OF sel(3) m]
  show ?thesis by blast
qed

section \<open>Properties of the grid sweep\<close>

lemma length_linspace: "length (linspace a b n) = n"
  by (auto simp: linspace_def)

lemma nth_linspace:
  assumes "2 \<le> n" and "i < n"
  shows "linspace a b n ! i = a + real i * (b - a) / real (n - 1)"
proof (cases "i = n - 1")
  case True
  with assms show ?thesis
    by (simp add: linspace_def nth_append)
next
  case False
  with assms have "i < n - 1" by simp
  with assms show ?thesis
    by (simp add: linspace_def nth_append)
qed

lemma nth_concat_uniform:
  "\<forall>x \<in> set xs. length (f x) = m \<Longrightarrow> k < length xs * m \<Longrightarrow>
     concat (map f xs) ! k = f (xs ! (k div m)) ! (k mod m)"
proof (induction xs arbitrary: k)
  case Nil
  then show ?case by simp
next
  case (Cons x xs)
  show ?case
  proof (cases "k < m")
    case True
    with Cons.prems show ?thesis by (simp add: nth_append)
  next
    case False
    then have km: "m \<le> k" by simp
    from Cons.prems have mpos: "0 < m" by (cases m) auto
    from km mpos have d: "k div m = Suc ((k - m) div m)"
      by (simp add: le_div_geq)
    from km have md: "k mod m = (k - m) mod m"
      by (simp add: le_mod_geq)
    from Cons.prems km have "k - m < length xs * m" by auto
    with Cons.IH [of "k - m"] Cons.prems(1)
    have "concat (map f xs) ! (k - m) = f (xs ! ((k - m) div m)) ! ((k - m) mod m)" by simp
    with Cons.prems(1) False d md show ?thesis by (simp add: nth_append)
  qed
qed

lemma length_product_lists_uniform:
  "\<forall>xs \<in> set xss. length xs = n \<Longrightarrow> length (product_lists xss) = n ^ length xss"
  by (induction xss) (auto simp: length_concat comp_def sum_list_triv)

lemma div_mod_digit:
  fixes k n :: nat
  assumes "e < d" and "0 < n"
  shows "((k mod n ^ d) div n ^ e) mod n = (k div n ^ e) mod n"
proof -
  define f where "f = d - Suc e"
  from assms(1) have d: "d = e + Suc f"
    by (simp add: f_def)
  let ?a = "n ^ e" and ?q = "n ^ Suc f"
  have apos: "0 < ?a" using assms(2) by simp
  have "(k mod (?a * ?q)) div ?a = (?a * (k div ?a mod ?q) + k mod ?a) div ?a"
    by (simp only: mod_mult2_eq)
  also have "\<dots> = k div ?a mod ?q + (k mod ?a) div ?a"
    using apos by (simp only: div_mult_self4)
  also have "\<dots> = k div ?a mod ?q"
    using apos by (simp only: mod_less_divisor div_less add_0_right)
  finally have "(k mod n ^ d) div ?a = k div ?a mod ?q"
    by (simp only: d power_add)
  moreover have "(k div ?a mod ?q) mod n = (k div ?a) mod n"
    by (rule mod_mod_cancel) (simp only: power_Suc dvd_triv_left)
  ultimately show ?thesis by (simp only:)
qed

lemma nth_product_lists:
  assumes "\<forall>xs \<in> set xss. length xs = n" and "k < n ^ length xss"
  shows "product_lists xss ! k =
           map (\<lambda>i. (xss ! i) ! ((k div n ^ (length xss - 1 - i)) mod n)) [0..<length xss]"
  using assms
proof (induction xss arbitrary: k)
  case Nil
  then show ?case by simp
next
  case (Cons xs xss)
  let ?d = "length xss"
  let ?m = "n ^ ?d"
  from Cons.prems have len: "length xs = n" and rest: "\<forall>ys \<in> set xss. length ys = n"
    by simp_all
  from Cons.prems have npos: "0 < n" by (cases n) auto
  have lp: "length (product_lists xss) = ?m"
    using rest by (rule length_product_lists_uniform)
  from Cons.prems have k: "k < length xs * ?m" by (simp add: len)
  have kd: "k div ?m < n"
    using k len by (simp add: less_mult_imp_div_less)
  have km: "k mod ?m < ?m" using npos by simp
  have "product_lists (xs # xss) ! k = (xs ! (k div ?m)) # (product_lists xss ! (k mod ?m))"
    using nth_concat_uniform [of xs "\<lambda>x. map (Cons x) (product_lists xss)" ?m k] k lp km
    by simp
  also have "product_lists xss ! (k mod ?m) =
      map (\<lambda>i. (xss ! i) ! (((k mod ?m) div n ^ (?d - 1 - i)) mod n)) [0..<?d]"
    using Cons.IH [OF rest km] .
  also have "\<dots> = map (\<lambda>i. (xss ! i) ! ((k div n ^ (?d - 1 - i)) mod n)) [0..<?d]"
  proof (rule map_cong [OF refl])
    fix i assume "i \<in> set [0..<?d]"
    then have "?d - 1 - i < ?d" by auto
    from div_mod_digit [OF this npos, of k]
    show "(xss ! i) ! (((k mod ?m) div n ^ (?d - 1 - i)) mod n)
            = (xss ! i) ! ((k div n ^ (?d - 1 - i)) mod n)"
      by simp
  qed
  finally have lhs: "product_lists (xs # xss) ! k =
      (xs ! (k div ?m)) # map (\<lambda>i. (xss ! i) ! ((k div n ^ (?d - 1 - i)) mod n)) [0..<?d]" .
  have "map (\<lambda>i. ((xs # xss) ! i) ! ((k div n ^ (length (xs # xss) - 1 - i)) mod n)) [0..<length (xs # xss)]
      = (xs ! ((k div ?m) mod n)) # map (\<lambda>i. (xss ! i) ! ((k div n ^ (?d - 1 - i)) mod n)) [0..<?d]"
    by (simp add: map_upt_Suc del: upt_Suc)
  with lhs kd show ?case by (simp del: product_lists.simps upt_Suc)
qed

lemma make_grid_product:
  assumes "dimension = length bounds"
  shows "make_grid bounds dimension nn =
           Inr (product_lists (map (\<lambda>bound. linspace (fst bound) (snd bound) nn) bounds))"
proof -
  let ?gx = "map (\<lambda>bound. linspace (fst bound) (snd bound) nn) bounds"
  have u: "\<forall>xs \<in> set ?gx. length xs = nn" by (auto simp: length_linspace)
  have l: "length (product_lists ?gx) = nn ^ length bounds"
    using length_product_lists_uniform [OF u] by simp
  have "map (grid_point ?gx nn (length bounds)) [0..<nn ^ length bounds] = product_lists ?gx"
  proof (rule nth_equalityI)
    show "length (map (grid_point ?gx nn (length bounds)) [0..<nn ^ length bounds])
            = length (product_lists ?gx)"
      using l by simp
  next
    fix k assume "k < length (map (grid_point ?gx nn (length bounds)) [0..<nn ^ length bounds])"
    then have k: "k < nn ^ length ?gx" by simp
    from nth_product_lists [OF u k] k
    show "map (grid_point ?gx nn (length bounds)) [0..<nn ^ length bounds] ! k = product_lists ?gx ! k"
      by (simp add: grid_point_def)
  qed
  with assms show ?thesis by (simp add: make_grid_def)
qed

lemma linspace_eq_map:
  assumes "2 \<le> n"
  shows "linspace a b n = map (\<lambda>j. a + real j * (b - a) / real (n - 1)) [0..<n]"
proof (rule nth_equalityI)
  show "length (linspace a b n) = length (map (\<lambda>j. a + real j * (b - a) / real (n - 1)) [0..<n])"
    by (simp add: length_linspace)
next
  fix i assume "i < length (linspace a b n)"
  then have "i < n" by (simp add: length_linspace)
  with assms show "linspace a b n ! i = map (\<lambda>j. a + real j * (b - a) / real (n - 1)) [0..<n] ! i"
    by (simp add: nth_linspace)
qed

lemma hd_linspace: "1 \<le> n \<Longrightarrow> hd (linspace a b n) = a"
  by (cases "n = 1") (auto simp: linspace_def hd_append hd_map upt_conv_Cons simp del: upt_Suc)

lemma last_linspace: "2 \<le> n \<Longrightarrow> last (linspace a b n) = b"
  by (simp add: linspace_def)

lemma linspace_nonempty: "1 \<le> n \<Longrightarrow> linspace a b n \<noteq> []"
  using length_linspace [of a b n] by auto

lemma product_lists_nonempty:
  "\<forall>xs \<in> set xss. xs \<noteq> [] \<Longrightarrow> product_lists xss \<noteq> []"
  by (induction xss) (auto simp: neq_Nil_conv)

lemma hd_product_lists:
  "\<forall>xs \<in> set xss. xs \<noteq> [] \<Longrightarrow> hd (product_lists xss) = map hd xss"
proof (induction xss)
  case Nil
  then show ?case by simp
next
  case (Cons xs xss)
  then obtain x xs' where xs: "xs = x # xs'" by (cases xs) auto
  from Cons.prems have ne: "product_lists xss \<noteq> []"
    by (intro product_lists_nonempty) simp
  from Cons have "hd (product_lists xss) = map hd xss" by simp
  with ne show ?case by (simp add: xs hd_append hd_map)
qed

lemma last_concat_map:
  "xs \<noteq> [] \<Longrightarrow> f (last xs) \<noteq> [] \<Longrightarrow> last (concat (map f xs)) = last (f (last xs))"
  by (cases xs rule: rev_cases) simp_all

lemma last_product_lists:
  "\<forall>xs \<in> set xss. xs \<noteq> [] \<Longrightarrow> last (product_lists xss) = map last xss"
proof (induction xss)
  case Nil
  then show ?case by simp
next
  case (Cons xs xss)
  from Cons.prems have nx: "xs \<noteq> []" by simp
  from Cons.prems have ne: "product_lists xss \<noteq> []"
    by (intro product_lists_nonempty) simp
  from Cons have ih: "last (product_lists xss) = map last xss" by simp
  have "last (product_lists (xs # xss)) = last (map (Cons (last xs)) (product_lists xss))"
    using nx ne by (simp add: last_concat_map)
  with ne ih show ?case by (simp add: last_map)
qed

lemma sweep_rows_complete:
  assumes "sweep_rows yd (enumerate i rows) self file_lines = (None, file', self')"
  shows "\<exists>objs. length objs = length rows \<and>
           file' = file_lines @ map (\<lambda>(j, dv, obj). Row (Suc j) dv obj)
                                    (zip [i..<i + length rows] (zip rows objs)) \<and>
           (\<forall>k<length rows. \<exists>w0 w.
               run_models_with_new_values yd (self\<lparr>world := w0\<rparr>) (rows ! k) False
                 = (Inr (YNum (objs ! k)), w))"
  using assms
proof (induction rows arbitrary: i self file_lines)
  case Nil
  then show ?case by simp
next
  case (Cons r rows)
  from Cons.prems obtain obj w where
    run: "run_models_with_new_values yd self r False = (Inr (YNum obj), w)"
    and rest: "sweep_rows yd (enumerate (Suc i) rows) (self\<lparr>world := w\<rparr>)
                 (file_lines @ [Row (i + 1) r obj]) = (None, file', self')"
    by (auto split: prod.splits sum.splits yaml_value.splits)
  from Cons.IH [OF rest] obtain objs where
    len: "length objs = length rows"
    and fl: "file' = (file_lines @ [Row (i + 1) r obj]) @
                 map (\<lambda>(j, dv, obj). Row (Suc j) dv obj)
                     (zip [Suc i..<Suc i + length rows] (zip rows objs))"
    and runs: "\<forall>k<length rows. \<exists>w0 w'.
               run_models_with_new_values yd (self\<lparr>world := w, world := w0\<rparr>) (rows ! k) False
                 = (Inr (YNum (objs ! k)), w')"
    by blast
  have upt: "[i..<i + length (r # rows)] = i # [Suc i..<Suc i + length rows]"
    by (simp add: upt_conv_Cons del: upt_Suc)
  have f: "file' = file_lines @ map (\<lambda>(j, dv, obj). Row (Suc j) dv obj)
                                    (zip [i..<i + length (r # rows)] (zip (r # rows) (obj # objs)))"
    unfolding upt fl by simp
  have r: "\<exists>w0 w'. run_models_with_new_values yd (self\<lparr>world := w0\<rparr>) ((r # rows) ! k) False
                 = (Inr (YNum ((obj # objs) ! k)), w')" if "k < length (r # rows)" for k
  proof (cases k)
    case 0
    have "self\<lparr>world := world self\<rparr> = self" by simp
    with run 0 show ?thesis by (metis nth_Cons_0)
  next
    case (Suc k')
    with that runs show ?thesis by simp
  qed
  from len f r show ?case
    by (intro exI [of _ "obj # objs"]) simp
qed

lemma linspace_one: "linspace a b (Suc 0) = [a]"
  by (simp add: linspace_def)

lemma product_lists_singletons: "product_lists (map (\<lambda>x. [f x]) xs) = [map f xs]"
  by (induction xs) simp_all

lemma sweep_rows_total:
  assumes "\<And>w dv. \<exists>obj w'. run_models_with_new_values yd (self\<lparr>world := w\<rparr>) dv False
                        = (Inr (YNum obj), w')"
  shows "fst (sweep_rows yd irows (self\<lparr>world := w0\<rparr>) file_lines) = None"
proof (induction irows arbitrary: w0 file_lines)
  case Nil
  show ?case by simp
next
  case (Cons ir irows)
  obtain i dv where ir: "ir = (i, dv)" by (cases ir)
  from assms [of w0 dv] obtain obj w' where
    "run_models_with_new_values yd (self\<lparr>world := w0\<rparr>) dv False = (Inr (YNum obj), w')"
    by blast
  with Cons.IH [of w' "file_lines @ [Row (i + 1) dv obj]"] show ?case
    by (simp add: ir)
qed

text \<open>
  Claim C4, for every \<open>nn \<ge> 1\<close>. The grid is the Cartesian product of the points of each
  variable in lexicographic order with the first variable slowest (row-major): \<open>nn ^ d\<close>
  combinations, the first all lower bounds. For \<open>nn \<ge> 2\<close> the points of a variable are
  the \<open>nn\<close> evenly spaced points from its lower to its upper bound and the last
  combination is all upper bounds; for \<open>nn = 1\<close> the only point of a variable is its lower
  bound and the only combination is all lower bounds. A sweep that completes has
  written, after the header, one row per combination in that order, numbered from 1,
  whose objective is the value the pipeline returned for that combination, neither
  negated nor scaled; and the sweep completes whenever the pipeline returns a number for
  every combination.
\<close>

theorem parameter_grid_sweep_enumeration:
  assumes "1 \<le> nn" and "length (var_names self) = length (var_real_bounds self)"
  shows "\<exists>rows. make_grid (var_real_bounds self) (length (var_names self)) nn = Inr rows \<and>
      rows = product_lists
               (map (\<lambda>(lb, ub). if nn = 1 then [lb]
                                else map (\<lambda>j. lb + real j * (ub - lb) / real (nn - 1)) [0..<nn])
                    (var_real_bounds self)) \<and>
      length rows = nn ^ length (var_real_bounds self) \<and>
      hd rows = map fst (var_real_bounds self) \<and>
      (2 \<le> nn \<longrightarrow> last rows = map snd (var_real_bounds self)) \<and>
      (nn = 1 \<longrightarrow> rows = [map fst (var_real_bounds self)]) \<and>
      (\<forall>file_lines self'. parameter_grid_sweep yd nn self = (None, file_lines, self') \<longrightarrow>
         (\<exists>objs. length objs = length rows \<and>
            file_lines = Header (nice_var_names self @ [objective_name self]) #
                         map (\<lambda>(j, dv, obj). Row (Suc j) dv obj)
                             (zip [0..<length rows] (zip rows objs)) \<and>
            (\<forall>k<length rows. \<exists>w0 w.
                run_models_with_new_values yd (self\<lparr>world := w0\<rparr>) (rows ! k) False
                  = (Inr (YNum (objs ! k)), w)))) \<and>
      ((\<forall>w dv. \<exists>obj w'. run_models_with_new_values yd (self\<lparr>world := w\<rparr>) dv False
                           = (Inr (YNum obj), w')) \<longrightarrow>
         fst (parameter_grid_sweep yd nn self) = None)"
proof -
  let ?bounds = "var_real_bounds self"
  let ?gx = "map (\<lambda>bound. linspace (fst bound) (snd bound) nn) ?bounds"
  let ?rows = "product_lists ?gx"
  have grid: "make_grid ?bounds (length (var_names self)) nn = Inr ?rows"
    using assms(2) by (rule make_grid_product)
  have gx: "?gx = map (\<lambda>(lb, ub). if nn = 1 then [lb]
                                else map (\<lambda>j. lb + real j * (ub - lb) / real (nn - 1)) [0..<nn])
                      ?bounds"
  proof (cases "nn = 1")
    case True
    then show ?thesis by (auto simp: linspace_one)
  next
    case False
    with assms(1) have "2 \<le> nn" by simp
    with False show ?thesis by (auto simp: linspace_eq_map)
  qed
  have u: "\<forall>xs \<in> set ?gx. length xs = nn"
    by (auto simp: length_linspace)
  have ne: "\<forall>xs \<in> set ?gx. xs \<noteq> []"
    using assms(1) by (auto simp: linspace_nonempty)
  have len: "length ?rows = nn ^ length ?bounds"
    using length_product_lists_uniform [OF u] by simp
  have first: "hd ?rows = map fst ?bounds"
    using assms(1) hd_product_lists [OF ne] by (simp add: comp_def hd_linspace)
  have final: "last ?rows = map snd ?bounds" if "2 \<le> nn"
    using that last_product_lists [OF ne] by (simp add: comp_def last_linspace)
  have single: "?rows = [map fst ?bounds]" if "nn = 1"
    using product_lists_singletons [of fst ?bounds] by (simp add: that linspace_one)
  have sweep: "\<exists>objs. length objs = length ?rows \<and>
            file_lines = Header (nice_var_names self @ [objective_name self]) #
                         map (\<lambda>(j, dv, obj). Row (Suc j) dv obj)
                             (zip [0..<length ?rows] (zip ?rows objs)) \<and>
            (\<forall>k<length ?rows. \<exists>w0 w.
                run_models_with_new_values yd (self\<lparr>world := w0\<rparr>) (?rows ! k) False
                  = (Inr (YNum (objs ! k)), w))"
    if "parameter_grid_sweep yd nn self = (None, file_lines, self')" for file_lines self'
  proof -
    from that grid have
      "sweep_rows yd (enumerate 0 ?rows) self [Header (nice_var_names self @ [objective_name self])]
         = (None, file_lines, self')"
      by (simp add: parameter_grid_sweep_def)
    from sweep_rows_complete [OF this] show ?thesis by simp
  qed
  have total: "fst (parameter_grid_sweep yd nn self) = None"
    if "\<forall>w dv. \<exists>obj w'. run_models_with_new_values yd (self\<lparr>world := w\<rparr>) dv False
                           = (Inr (YNum obj), w')"
  proof -
    have "fst (sweep_rows yd (enumerate 0 ?rows) (self\<lparr>world := world self\<rparr>)
                 [Header (nice_var_names self @ [objective_name self])]) = None"
      using that by (intro sweep_rows_total) blast
    with grid show ?thesis by (simp add: parameter_grid_sweep_def)
  qed
  show ?thesis
    apply (rule exI [of _ ?rows])
    apply (intro conjI allI impI)
           apply (rule grid)
          apply (simp only: gx)
         apply (rule len)
        apply (rule first)
       apply (erule final)
      apply (erule single)
     apply (erule sweep)
    apply (erule total)
    done
qed

theorem parameter_grid_sweep_enumeration_witness:
  "(1::nat) \<le> 3 \<and> (2::nat) \<le> 3 \<and>
   length (var_names (pair_self [''a'', ''b''] [(0, 1), (10, 20)]))
     = length (var_real_bounds (pair_self [''a'', ''b''] [(0, 1), (10, 20)])) \<and>
   parameter_grid_sweep pair_yaml_to_dict 3 (pair_self [''a'', ''b''] [(0, 1), (10, 20)])
     = (None,
        [Header [''a'', ''b'', ''obj''],
         Row 1 [0, 10] (Fin 0), Row 2 [0, 15] (Fin 0), Row 3 [0, 20] (Fin 0),
         Row 4 [1 / 2, 10] (Fin 2), Row 5 [1 / 2, 15] (Fin 2), Row 6 [1 / 2, 20] (Fin 2),
         Row 7 [1, 10] (Fin 4), Row 8 [1, 15] (Fin 4), Row 9 [1, 20] (Fin 4)],
        (pair_self [''a'', ''b''] [(0, 1), (10, 20)])\<lparr>world := (1, 20)\<rparr>) \<and>
   (\<exists>rows. make_grid [(0, 1), (10, 20)] 2 3 = Inr rows \<and> length rows = 9 \<and>
            hd rows = [0, 10] \<and> last rows = [1, 20]) \<and>
   (\<exists>rows. make_grid [(0, 1), (10, 20)] 2 1 = Inr rows \<and> length rows = 1 \<and>
            rows = [[0, 10]]) \<and>
   fst (parameter_grid_sweep pair_yaml_to_dict 1 (pair_self [''a'', ''b''] [(0, 1), (10, 20)]))
     = None"
proof -
  let ?s = "pair_self [''a'', ''b''] [(0, 1), (10, 20)]"
  have l: "length (var_names ?s) = length (var_real_bounds ?s)"
    by (simp add: pair_self_def)
  have g: "make_grid [(0, 1), (10, 20)] 2 3
             = Inr [[0, 10], [0, 15], [0, 20], [1 / 2, 10], [1 / 2, 15], [1 / 2, 20],
                    [1, 10], [1, 15], [1, 20]]"
    by (simp add: make_grid_def grid_point_def linspace_def upt_conv_Cons del: upt_Suc)
  have f: "parameter_grid_sweep pair_yaml_to_dict 3 ?s
     = (None,
        [Header [''a'', ''b'', ''obj''],
         Row 1 [0, 10] (Fin 0), Row 2 [0, 15] (Fin 0), Row 3 [0, 20] (Fin 0),
         Row 4 [1 / 2, 10] (Fin 2), Row 5 [1 / 2, 15] (Fin 2), Row 6 [1 / 2, 20] (Fin 2),
         Row 7 [1, 10] (Fin 4), Row 8 [1, 15] (Fin 4), Row 9 [1, 20] (Fin 4)],
        ?s\<lparr>world := (1, 20)\<rparr>)"
    by (simp add: parameter_grid_sweep_def g [unfolded numeral_2_eq_2] pair_self_def
        run_models_with_new_values_def pair_stage_def pair_yaml_to_dict_def read_objective_def)
  have runs: "\<forall>w dv. \<exists>obj w'. run_models_with_new_values pair_yaml_to_dict (?s\<lparr>world := w\<rparr>) dv False
                           = (Inr (YNum obj), w')"
  proof (intro allI)
    fix w :: "real \<times> real" and dv :: "real list"
    obtain r w' where "update_models [pair_stage] (zip [''a'', ''b''] dv) w = (r, w')"
      by (cases "update_models [pair_stage] (zip [''a'', ''b''] dv) w")
    moreover have "fst (update_models [pair_stage] zs w) = None" for zs
      by (induction zs arbitrary: w) (auto simp: pair_stage_def)
    ultimately have "update_models [pair_stage] (zip [''a'', ''b''] dv) w = (None, w')"
      by (metis fst_conv)
    then show "\<exists>obj w'. run_models_with_new_values pair_yaml_to_dict (?s\<lparr>world := w\<rparr>) dv False
                           = (Inr (YNum obj), w')"
      by (simp add: run_models_with_new_values_def pair_self_def pair_yaml_to_dict_def
          read_objective_def)
  qed
  have n3: "(1::nat) \<le> 3" and n1: "(1::nat) \<le> 1" and n2: "(2::nat) \<le> 3" by simp_all
  have vb: "var_real_bounds ?s = [(0, 1), (10, 20)]" "length (var_names ?s) = 2"
    by (simp_all add: pair_self_def)
  from parameter_grid_sweep_enumeration [of 3 ?s pair_yaml_to_dict, OF n3 l] n2
  obtain rows where
    r: "make_grid (var_real_bounds ?s) (length (var_names ?s)) 3 = Inr rows"
       "length rows = 3 ^ length (var_real_bounds ?s)"
       "hd rows = map fst (var_real_bounds ?s)"
       "last rows = map snd (var_real_bounds ?s)"
    by blast
  from r have "make_grid [(0, 1), (10, 20)] 2 3 = Inr rows \<and> length rows = 9 \<and>
            hd rows = [0, 10] \<and> last rows = [1, 20]"
    unfolding vb by simp
  then have three: "\<exists>rows. make_grid [(0, 1), (10, 20)] 2 3 = Inr rows \<and> length rows = 9 \<and>
            hd rows = [0, 10] \<and> last rows = [1, 20]" ..
  from parameter_grid_sweep_enumeration [of 1 ?s pair_yaml_to_dict, OF n1 l] runs
  obtain rows1 where
    r1: "make_grid (var_real_bounds ?s) (length (var_names ?s)) 1 = Inr rows1"
        "length rows1 = 1 ^ length (var_real_bounds ?s)"
        "rows1 = [map fst (var_real_bounds ?s)]"
    and c1: "fst (parameter_grid_sweep pair_yaml_to_dict 1 ?s) = None"
    by blast
  from r1 have "make_grid [(0, 1), (10, 20)] 2 1 = Inr rows1 \<and> length rows1 = 1 \<and>
            rows1 = [[0, 10]]"
    unfolding vb by simp
  then have one: "\<exists>rows. make_grid [(0, 1), (10, 20)] 2 1 = Inr rows \<and> length rows = 1 \<and>
            rows = [[0, 10]]" ..
  from n3 n2 l f three one c1 show ?thesis by (simp only: simp_thms)
qed

text \<open>
  With one point per variable the grid is the lower bound alone: on the concrete pipeline
  with bounds \<open>(0, 1)\<close> the only combination of the sweep is \<open>[0]\<close>, not the upper bound.
\<close>

theorem grid_single_point_counterexample:
  "fst (snd (parameter_grid_sweep pair_yaml_to_dict 1 (pair_self [''a''] [(0, 1)])))
     = [Header [''a'', ''obj''], Row 1 [0] (Fin 0)] \<and>
   [0::real] \<noteq> map snd (var_real_bounds (pair_self [''a''] [(0, 1)]))"
  by (simp add: parameter_grid_sweep_def make_grid_def grid_point_def linspace_def pair_self_def
      run_models_with_new_values_def pair_stage_def pair_yaml_to_dict_def read_objective_def)

section \<open>Properties of the stage models\<close>

lemma Bioreactor_class:
  "exec_body (Bioreactor_body shared) Map.empty =
     Inr (Map.empty
       (''gas_velocity'' \<mapsto> \<lparr>fget = (\<lambda>self. YNum (Fin (br_gas_velocity self))),
                              fset = Some (Bioreactor_set_gas_velocity shared)\<rparr>,
        ''column_height'' \<mapsto> \<lparr>fget = (\<lambda>self. YNum (Fin (br_column_height self))), fset = None\<rparr>,
        ''column_diameter'' \<mapsto> \<lparr>fget = (\<lambda>self. YNum (Fin (br_column_diameter self))),
                              fset = Some (checked_set (\<lambda>a. 1 \<le> a \<and> a \<le> 6) ''[1, 1e16]''
                                  (\<lambda>a self. self\<lparr>br_column_diameter := a\<rparr>) Bioreactor_input2yaml)\<rparr>,
        ''bubble_diameter'' \<mapsto> \<lparr>fget = (\<lambda>self. YNum (Fin (br_bubble_diameter self))), fset = None\<rparr>,
        ''t_final'' \<mapsto> \<lparr>fget = (\<lambda>self. YNum (Fin (br_t_final self))),
                              fset = Some (checked_set (\<lambda>a. 1 \<le> a \<and> a \<le> 10 ^ 16) ''[1, 1e16]''
                                  (\<lambda>a self. self\<lparr>br_t_final := a\<rparr>) Bioreactor_input2yaml)\<rparr>,
        ''model_type'' \<mapsto> \<lparr>fget = (\<lambda>self. YStr (br_model_type self)),
                              fset = Some Bioreactor_set_model_type\<rparr>))"
  by (simp add: Bioreactor_body_def fun_upd_twist)

text \<open>
  Claim C10. When the persisted \<open>rho_g\<close> of \<open>enzymatic_output\<close> is NaN,
  \<^verbatim>\<open>run_biorector_cfd_surrogate\<close> returns Python's \<^verbatim>\<open>None\<close>, neither \<^verbatim>\<open>True\<close> nor
  \<^verbatim>\<open>False\<close>; the surrogate model is not called and the parameter document is unchanged.
\<close>

theorem bioreactor_surrogate_nan_returns_none:
  assumes "doc ''enzymatic_output'' = Some sec" and "sec ''rho_g'' = Some (YNum NaN)"
  shows "run_biorector_cfd_surrogate main check_dict_for_nans doc = (Inr None, doc)"
  using assms by (simp add: run_biorector_cfd_surrogate_def)

theorem bioreactor_surrogate_nan_returns_none_witness:
  "run_biorector_cfd_surrogate (\<lambda>d. Inl (StageFailure ''surrogate'')) (\<lambda>out. False)
     (Map.empty(''enzymatic_output'' \<mapsto> Map.empty(''rho_g'' \<mapsto> YNum NaN)))
   = (Inr None, Map.empty(''enzymatic_output'' \<mapsto> Map.empty(''rho_g'' \<mapsto> YNum NaN)))"
  using bioreactor_surrogate_nan_returns_none
    [of "Map.empty(''enzymatic_output'' \<mapsto> Map.empty(''rho_g'' \<mapsto> YNum NaN))"
        "Map.empty(''rho_g'' \<mapsto> YNum NaN)"]
  by simp


lemma checked_set_cases:
  "checked_set ok txt store input2yaml v (self, doc) = (e, self', doc') \<Longrightarrow>
     (e \<noteq> None \<and> self' = self \<and> doc' = doc) \<or>
     (\<exists>a. v = YNum (Fin a) \<and> ok a \<and> e = None \<and> self' = store a self \<and>
          doc' = input2yaml (store a self) doc)"
  by (cases v; cases "case v of YNum f \<Rightarrow> f | _ \<Rightarrow> NaN") (auto split: if_splits)

lemma checked_set_rejects:
  "\<not> ok a \<Longrightarrow>
     checked_set ok txt store input2yaml (YNum (Fin a)) (self, doc)
       = (Some (ValueOutside (Fin a) txt), self, doc)"
  by simp

lemma bioreactor_setters_keep:
  assumes "exec_body (Bioreactor_body shared) Map.empty = Inr ns"
    and "set_property ns name v (self, doc) = Some (e, self', doc')"
  shows "br_column_height self' = br_column_height self \<and>
         br_bubble_diameter self' = br_bubble_diameter self"
proof -
  note ns = assms(1) [unfolded Bioreactor_class sum.inject, symmetric]
  consider (gv) "name = ''gas_velocity''" | (ch) "name = ''column_height''"
    | (cd) "name = ''column_diameter''" | (bd) "name = ''bubble_diameter''"
    | (tf) "name = ''t_final''" | (mt) "name = ''model_type''"
    | (other) "name \<noteq> ''gas_velocity'' \<and> name \<noteq> ''column_height'' \<and>
               name \<noteq> ''column_diameter'' \<and> name \<noteq> ''bubble_diameter'' \<and>
               name \<noteq> ''t_final'' \<and> name \<noteq> ''model_type''"
    by argo
  then show ?thesis
  proof cases
    case gv
    with assms(2) have "Bioreactor_set_gas_velocity shared v (self, doc) = (e, self', doc')"
      by (simp add: ns set_property_def)
    then show ?thesis
      by (auto split: if_splits dest!: checked_set_cases)
  next
    case ch
    with assms(2) show ?thesis by (simp add: ns set_property_def)
  next
    case cd
    with assms(2) show ?thesis
      by (auto simp: ns set_property_def dest!: checked_set_cases)
  next
    case bd
    with assms(2) show ?thesis by (simp add: ns set_property_def)
  next
    case tf
    with assms(2) show ?thesis
      by (auto simp: ns set_property_def dest!: checked_set_cases)
  next
    case mt
    with assms(2) have "Bioreactor_set_model_type v (self, doc) = (e, self', doc')"
      by (simp add: ns set_property_def)
    then show ?thesis
      by (cases v)
         (auto simp: Bioreactor_select_run_function_def Let_def split: if_splits)
  next
    case other
    with assms(2) show ?thesis by (simp add: ns set_property_def)
  qed
qed


text \<open>
  Claim C9. In the Bioreactor class the names \<open>column_height\<close> and \<open>bubble_diameter\<close> are
  bound to properties with a getter and no setter: for every object and every value an
  assignment to either raises \<^verbatim>\<open>AttributeError\<close> and changes nothing. The two decorated
  setters were bound to the name \<open>t_final\<close>, whose final binding is the property with the
  check \<open>[1, 1e16]\<close>; no property setter of the class changes the column height or the
  bubble diameter.
\<close>

theorem bioreactor_height_and_bubble_read_only:
  "\<exists>ns. exec_body (Bioreactor_body shared) Map.empty = Inr ns \<and>
     set_property ns ''column_height'' v (self, doc)
       = Some (Some (AttributeError ''column_height''), self, doc) \<and>
     set_property ns ''bubble_diameter'' v (self, doc)
       = Some (Some (AttributeError ''bubble_diameter''), self, doc) \<and>
     get_property ns ''column_height'' self = Some (YNum (Fin (br_column_height self))) \<and>
     get_property ns ''bubble_diameter'' self = Some (YNum (Fin (br_bubble_diameter self))) \<and>
     set_property ns ''t_final'' v (self, doc)
       = Some (checked_set (\<lambda>a. 1 \<le> a \<and> a \<le> 10 ^ 16) ''[1, 1e16]''
                 (\<lambda>a self. self\<lparr>br_t_final := a\<rparr>) Bioreactor_input2yaml v (self, doc)) \<and>
     (\<forall>name e self' doc'.
         set_property ns name v (self, doc) = Some (e, self', doc') \<longrightarrow>
         br_column_height self' = br_column_height self \<and>
         br_bubble_diameter self' = br_bubble_diameter self)"
proof -
  obtain ns where ns: "exec_body (Bioreactor_body shared) Map.empty = Inr ns"
    using Bioreactor_class by blast
  have keep: "br_column_height self' = br_column_height self \<and>
              br_bubble_diameter self' = br_bubble_diameter self"
    if "set_property ns name v (self, doc) = Some (e, self', doc')" for name e self' doc'
    using ns that by (rule bioreactor_setters_keep)
  note eq = ns [unfolded Bioreactor_class sum.inject, symmetric]
  have a: "set_property ns ''column_height'' v (self, doc)
       = Some (Some (AttributeError ''column_height''), self, doc)"
    by (simp add: eq set_property_def)
  have b: "set_property ns ''bubble_diameter'' v (self, doc)
       = Some (Some (AttributeError ''bubble_diameter''), self, doc)"
    by (simp add: eq set_property_def)
  have c: "get_property ns ''column_height'' self = Some (YNum (Fin (br_column_height self)))"
    by (simp add: eq get_property_def)
  have d: "get_property ns ''bubble_diameter'' self = Some (YNum (Fin (br_bubble_diameter self)))"
    by (simp add: eq get_property_def)
  have t: "set_property ns ''t_final'' v (self, doc)
       = Some (checked_set (\<lambda>a. 1 \<le> a \<and> a \<le> 10 ^ 16) ''[1, 1e16]''
                 (\<lambda>a self. self\<lparr>br_t_final := a\<rparr>) Bioreactor_input2yaml v (self, doc))"
    by (simp add: eq set_property_def)
  from ns a b c d t keep show ?thesis by blast
qed


theorem bioreactor_height_and_bubble_read_only_witness:
  "\<exists>ns. exec_body (Bioreactor_body False) Map.empty = Inr ns \<and>
     set_property ns ''t_final'' (YNum (Fin 5)) (bubble_column, Map.empty)
       = Some (None, bubble_column\<lparr>br_t_final := 5\<rparr>,
               Bioreactor_input2yaml (bubble_column\<lparr>br_t_final := 5\<rparr>) Map.empty) \<and>
     br_column_height (bubble_column\<lparr>br_t_final := 5\<rparr>) = br_column_height bubble_column \<and>
     br_bubble_diameter (bubble_column\<lparr>br_t_final := 5\<rparr>) = br_bubble_diameter bubble_column \<and>
     set_property ns ''column_height'' (YNum (Fin 5)) (bubble_column, Map.empty)
       = Some (Some (AttributeError ''column_height''), bubble_column, Map.empty)"
proof -
  from bioreactor_height_and_bubble_read_only [of False "YNum (Fin 5)" bubble_column Map.empty]
  obtain ns where
    ns: "exec_body (Bioreactor_body False) Map.empty = Inr ns"
    and ch: "set_property ns ''column_height'' (YNum (Fin 5)) (bubble_column, Map.empty)
               = Some (Some (AttributeError ''column_height''), bubble_column, Map.empty)"
    and tf: "set_property ns ''t_final'' (YNum (Fin 5)) (bubble_column, Map.empty)
       = Some (checked_set (\<lambda>a. 1 \<le> a \<and> a \<le> 10 ^ 16) ''[1, 1e16]''
                 (\<lambda>a self. self\<lparr>br_t_final := a\<rparr>) Bioreactor_input2yaml
                 (YNum (Fin 5)) (bubble_column, Map.empty))"
    and keep: "\<And>name e self' doc'.
         set_property ns name (YNum (Fin 5)) (bubble_column, Map.empty) = Some (e, self', doc') \<Longrightarrow>
         br_column_height self' = br_column_height bubble_column \<and>
         br_bubble_diameter self' = br_bubble_diameter bubble_column"
    by blast
  from tf have tf': "set_property ns ''t_final'' (YNum (Fin 5)) (bubble_column, Map.empty)
       = Some (None, bubble_column\<lparr>br_t_final := 5\<rparr>,
               Bioreactor_input2yaml (bubble_column\<lparr>br_t_final := 5\<rparr>) Map.empty)"
    by simp
  from keep [OF tf'] ns ch tf' show ?thesis by blast
qed

text \<open>
  The setters of Feedstock and the acid concentration of Pretreatment keep the range
  contract: a value outside the interval raises the \<^verbatim>\<open>ValueError\<close> that carries the value
  and the interval, and leaves the object and the parameter document as they were.
\<close>

lemma Feedstock_class:
  "exec_body Feedstock_body Map.empty =
     Inr (Map.empty
       (''xylan_solid_fraction'' \<mapsto>
          \<lparr>fget = (\<lambda>self. YNum (Fin (fs_xylan_solid_fraction self))),
           fset = Some (checked_set (\<lambda>a. 0 \<le> a \<and> a \<le> 1) ''[0, 1]''
                    (\<lambda>a self. self\<lparr>fs_xylan_solid_fraction := a\<rparr>) Feedstock_input2yaml)\<rparr>,
        ''glucan_solid_fraction'' \<mapsto>
          \<lparr>fget = (\<lambda>self. YNum (Fin (fs_glucan_solid_fraction self))),
           fset = Some (checked_set (\<lambda>a. 0 \<le> a \<and> a \<le> 1) ''[0, 1]''
                    (\<lambda>a self. self\<lparr>fs_glucan_solid_fraction := a\<rparr>) Feedstock_input2yaml)\<rparr>,
        ''initial_porosity'' \<mapsto>
          \<lparr>fget = (\<lambda>self. YNum (Fin (fs_initial_porosity self))),
           fset = Some (checked_set (\<lambda>a. 0 < a \<and> a < 1) ''(0, 1)''
                    (\<lambda>a self. self\<lparr>fs_initial_porosity := a\<rparr>) Feedstock_input2yaml)\<rparr>))"
  by (simp add: Feedstock_body_def)

lemma feedstock_setters_atomic:
  "\<exists>ns. exec_body Feedstock_body Map.empty = Inr ns \<and>
     (a < 0 \<or> 1 < a \<longrightarrow>
        set_property ns ''xylan_solid_fraction'' (YNum (Fin a)) (self, doc)
          = Some (Some (ValueOutside (Fin a) ''[0, 1]''), self, doc) \<and>
        set_property ns ''glucan_solid_fraction'' (YNum (Fin a)) (self, doc)
          = Some (Some (ValueOutside (Fin a) ''[0, 1]''), self, doc)) \<and>
     (a \<le> 0 \<or> 1 \<le> a \<longrightarrow>
        set_property ns ''initial_porosity'' (YNum (Fin a)) (self, doc)
          = Some (Some (ValueOutside (Fin a) ''(0, 1)''), self, doc))"
  by (auto simp: Feedstock_class set_property_def)

lemma pretreatment_initial_acid_conc_atomic:
  "\<exists>ns. exec_body Pretreatment_body Map.empty = Inr ns \<and>
     (a < 0 \<or> 1 < a \<longrightarrow>
        set_property ns ''initial_acid_conc'' (YNum (Fin a)) (self, doc)
          = Some (Some (ValueOutside (Fin a) ''[0.0, 1.0]''), self, doc))"
  by (auto simp: Pretreatment_body_def set_property_def)

text \<open>
  Claim C6, at the Bioreactor. Assigning 5 to \<open>column_height\<close> (checked interval
  \<open>[10, 50]\<close>) or 1 to \<open>bubble_diameter\<close> (checked interval \<open>[0.003, 0.008]\<close>) raises
  \<^verbatim>\<open>AttributeError\<close>, not a \<^verbatim>\<open>ValueError\<close>; assigning 0.5 to \<open>gas_velocity\<close>, outside the
  interval \<open>[1, 1e16]\<close> its message names, is accepted and persisted; assigning 7 to
  \<open>column_diameter\<close> raises a \<^verbatim>\<open>ValueError\<close> whose message names \<open>[1, 1e16]\<close>, an
  interval that contains 7, where the check allows \<open>[1, 6]\<close>.
\<close>

theorem bioreactor_range_contract_broken:
  "\<exists>ns. exec_body (Bioreactor_body shared) Map.empty = Inr ns \<and>
     set_property ns ''column_height'' (YNum (Fin 5)) (bubble_column, doc)
       = Some (Some (AttributeError ''column_height''), bubble_column, doc) \<and>
     set_property ns ''bubble_diameter'' (YNum (Fin 1)) (bubble_column, doc)
       = Some (Some (AttributeError ''bubble_diameter''), bubble_column, doc) \<and>
     set_property ns ''gas_velocity'' (YNum (Fin (1 / 2))) (bubble_column, doc)
       = Some (None, bubble_column\<lparr>br_gas_velocity := 1 / 2\<rparr>,
               Bioreactor_input2yaml (bubble_column\<lparr>br_gas_velocity := 1 / 2\<rparr>) doc) \<and>
     set_property ns ''column_diameter'' (YNum (Fin 7)) (bubble_column, doc)
       = Some (Some (ValueOutside (Fin 7) ''[1, 1e16]''), bubble_column, doc)"
  by (simp add: Bioreactor_class set_property_def bubble_column_def)

end
